theory Spec2Isabelle
  imports Complex_Main "HOL-Library.AList"
begin

section \<open>The line visual of vispy/visuals/line.py\<close>

text \<open>
  The development embeds \<^verbatim>\<open>LineVisual\<close> and the module constants it uses.
  Python objects become records and datatypes, the instance attributes become the
  fields of one record, every method takes the instance and returns it updated, and
  every call that leaves the module (creating a vertex buffer, creating a composite
  program, \<^verbatim>\<open>gl.glLineWidth\<close>, \<^verbatim>\<open>program.draw\<close>) is written to a list of
  calls, in the order in which the method makes them.
\<close>

subsection \<open>Arrays\<close>

datatype py_error = AttributeError | IndexError | TypeError | ValueError

text \<open>
  A numpy array is its shape and its elements in row-major order. Elements are reals:
  the rounding of \<^verbatim>\<open>np.float32\<close> is not part of the model, the values are only
  stored and passed on.
\<close>

record ndarray =
  shape :: "nat list"
  elems :: "real list"

definition ndim :: "ndarray \<Rightarrow> nat" where
  "ndim a = length (shape a)"

text \<open>\<^verbatim>\<open>a.shape[-1]\<close>: indexing the empty tuple raises IndexError.\<close>

definition shape_last :: "nat list \<Rightarrow> py_error + nat" where
  "shape_last s = (if s = [] then Inl IndexError else Inr (last s))"

text \<open>\<^verbatim>\<open>len(a)\<close>: the first axis; a 0-d array raises TypeError.\<close>

definition py_len :: "ndarray \<Rightarrow> py_error + nat" where
  "py_len a = (case shape a of [] \<Rightarrow> Inl TypeError | n # _ \<Rightarrow> Inr n)"

text \<open>
  numpy's rule for \<^verbatim>\<open>dst[...] = src\<close>, on the reversed shapes: axes are aligned
  from the last one, an axis of the source fits when it is equal to the destination's
  or is 1, and the axes the source has in excess must all be 1.
\<close>

fun fits_rev :: "nat list \<Rightarrow> nat list \<Rightarrow> bool" where
  "fits_rev [] ds = True"
| "fits_rev (a # as) [] = (a = 1 \<and> fits_rev as [])"
| "fits_rev (a # as) (d # ds) = ((a = d \<or> a = 1) \<and> fits_rev as ds)"

definition broadcastable :: "nat list \<Rightarrow> nat list \<Rightarrow> bool" where
  "broadcastable src dst = fits_rev (rev src) (rev dst)"

text \<open>
  A structured array, as \<^verbatim>\<open>np.empty(shape, typ)\<close> makes it: the shape of the array
  of records, the fields of the record type (name and number of float32 components, in
  the order of \<^verbatim>\<open>typ\<close>), and for each field that has been assigned the array it was
  filled from. A field of k components is read as an array of shape \<open>rshape @ [k]\<close>.
  (numpy has treated a count of 1 as a scalar field; the counts that the docstring of
  \<^verbatim>\<open>set_data\<close> allows are 2 to 4, and no statement below is about a count of 1.)
\<close>

record recarray =
  rshape :: "nat list"
  dtype_fields :: "(string \<times> nat) list"
  columns :: "(string \<times> ndarray) list"

definition np_empty :: "nat list \<Rightarrow> (string \<times> nat) list \<Rightarrow> recarray" where
  "np_empty s typ = \<lparr>rshape = s, dtype_fields = typ, columns = []\<rparr>"

definition field_shape :: "recarray \<Rightarrow> string \<Rightarrow> py_error + nat list" where
  "field_shape d f =
     (case map_of (dtype_fields d) f of
        None \<Rightarrow> Inl ValueError
      | Some k \<Rightarrow> Inr (rshape d @ [k]))"

text \<open>\<^verbatim>\<open>d[f] = src\<close>\<close>

definition np_setitem :: "recarray \<Rightarrow> string \<Rightarrow> ndarray \<Rightarrow> py_error + recarray" where
  "np_setitem d f src =
     (case field_shape d f of
        Inl e \<Rightarrow> Inl e
      | Inr fs \<Rightarrow>
          if broadcastable (shape src) fs
          then Inr (d\<lparr>columns := AList.update f src (columns d)\<rparr>)
          else Inl ValueError)"

subsection \<open>The options of a visual\<close>

text \<open>
  The docstring of \<^verbatim>\<open>set_data\<close> gives the values: \<^verbatim>\<open>pos\<close> an array,
  \<^verbatim>\<open>color\<close> a tuple (the default is one) or an array, \<^verbatim>\<open>width\<close> a scalar or an
  array.
\<close>

datatype color = ColorTuple "real list" | ColorArray ndarray

datatype width = Scalar real | PerVertex ndarray

datatype transform = NullTransform | UserTransform string

text \<open>\<^verbatim>\<open>isinstance(color, np.ndarray) and color.ndim > 1\<close>\<close>

fun color_is_array :: "color \<Rightarrow> bool" where
  "color_is_array (ColorTuple xs) = False"
| "color_is_array (ColorArray a) = (ndim a > 1)"

text \<open>\<^verbatim>\<open>np.array(color)\<close>\<close>

fun np_array :: "color \<Rightarrow> ndarray" where
  "np_array (ColorTuple xs) = \<lparr>shape = [length xs], elems = xs\<rparr>"
| "np_array (ColorArray a) = a"

subsection \<open>Shader functions and the composite program\<close>

text \<open>
  Modelled from the spec: \<^verbatim>\<open>FunctionTemplate\<close>, \<^verbatim>\<open>FragmentFunction\<close>,
  \<^verbatim>\<open>CompositeProgram\<close>, \<^verbatim>\<open>gloo.VertexBuffer\<close> and the transforms are classes of
  other modules. They are modelled as the data the visual hands to them: a template is
  its source text (one string per line) and its variable names; binding a template
  records the name and the role given to each variable as a triple (storage class,
  GLSL type, generated name); assigning \<^verbatim>\<open>func[name] = value\<close> stages the value in
  the slot of that name; \<^verbatim>\<open>set_hook\<close> binds an instance to a hook and overwrites an
  earlier binding of the same hook. What these classes do with the data (generating
  source, compiling, uploading) and the errors they raise while doing so are outside
  the model.
\<close>

datatype shader_function =
    FunctionTemplate "string list" "string list"
  | FragmentFunction shader_function shader_function "(string \<times> string \<times> string) list"

datatype vertex_buffer = VertexBuffer recarray

datatype staged =
    Column vertex_buffer string
  | Buffer "vertex_buffer option"
  | Float real
  | Array ndarray

datatype bound_function =
    BoundFunction shader_function string "(string \<times> string \<times> string \<times> string) list"
      "(string \<times> staged) list"
  | BoundMap transform string

fun roles :: "bound_function \<Rightarrow> (string \<times> string \<times> string \<times> string) list" where
  "roles (BoundFunction t n rs vs) = rs"
| "roles (BoundMap tr n) = []"

fun slots :: "bound_function \<Rightarrow> (string \<times> staged) list" where
  "slots (BoundFunction t n rs vs) = vs"
| "slots (BoundMap tr n) = []"

text \<open>\<^verbatim>\<open>template.bind(name, var=(storage, type, generated_name), ...)\<close>\<close>

definition bind :: "shader_function \<Rightarrow> string \<Rightarrow> (string \<times> string \<times> string \<times> string) list
    \<Rightarrow> bound_function" where
  "bind t n rs = BoundFunction t n rs []"

text \<open>\<^verbatim>\<open>func[name] = value\<close>\<close>

fun stage :: "bound_function \<Rightarrow> string \<Rightarrow> staged \<Rightarrow> bound_function" where
  "stage (BoundFunction t n rs vs) k x = BoundFunction t n rs (AList.update k x vs)"
| "stage (BoundMap tr n) k x = BoundMap tr n"

text \<open>\<^verbatim>\<open>transform.bind_map(name)\<close>\<close>

definition bind_map :: "transform \<Rightarrow> string \<Rightarrow> bound_function" where
  "bind_map tr n = BoundMap tr n"

record composite_program =
  vmain :: "string list"
  fmain :: "string list"
  hooks :: "(string \<times> bound_function) list"

definition CompositeProgram :: "string list \<Rightarrow> string list \<Rightarrow> composite_program" where
  "CompositeProgram vm fm = \<lparr>vmain = vm, fmain = fm, hooks = []\<rparr>"

definition set_hook :: "string \<Rightarrow> bound_function \<Rightarrow> composite_program \<Rightarrow> composite_program" where
  "set_hook h f p = p\<lparr>hooks := AList.update h f (hooks p)\<rparr>"

subsection \<open>The module constants\<close>

text \<open>
  The two master templates. A text is the list of its lines, the text itself being the
  lines joined by line breaks: a literal that opens with a line break has an empty
  first line, and one that ends with a line break has an empty last line.
\<close>

definition vertex_shader :: "string list" where
  "vertex_shader =
    ['''',
     ''// local_position function must return the current vertex position'',
     ''// in the Visual's local coordinate system.'',
     ''vec4 local_position(void);'',
     '''',
     ''// mapping function that transforms from the Visual's local coordinate'',
     ''// system to normalized device coordinates.'',
     ''vec4 map_local_to_nd(vec4);'',
     '''',
     ''// generic hook for executing code after the vertex position has been set'',
     ''void post_hook();'',
     '''',
     ''void main(void) {'',
     ''    vec4 local_pos = local_position();'',
     ''    vec4 nd_pos = map_local_to_nd(local_pos);'',
     ''    gl_Position = nd_pos;'',
     ''    '',
     ''    post_hook();'',
     ''}'',
     '''']"

definition fragment_shader :: "string list" where
  "fragment_shader =
    ['''',
     ''// Must return the color for this fragment'',
     ''// or discard.'',
     ''vec4 frag_color();'',
     '''',
     ''void main(void) {'',
     ''    gl_FragColor = frag_color();'',
     ''}'',
     '''']"

definition XYInputFunc :: shader_function where
  "XYInputFunc = FunctionTemplate
    ['''',
     ''vec4 $func_name() {'',
     ''    return vec4($xy_pos, $z_pos, 1.0);'',
     ''}'',
     '''']
    [''xy_pos'', ''z_pos'']"

definition XYZInputFunc :: shader_function where
  "XYZInputFunc = FunctionTemplate
    ['''',
     ''vec4 $func_name() {'',
     ''    return vec4($xyz_pos, 1.0);'',
     ''}'',
     '''']
    [''xyz_pos'']"

definition RGBAAttributeFunc :: shader_function where
  "RGBAAttributeFunc = FragmentFunction
    (FunctionTemplate
      ['''',
       ''        vec4 $func_name() {'',
       ''            return $rgba;'',
       ''        }'',
       ''        '']
      [''rgba''])
    (FunctionTemplate
      ['''',
       ''        void $func_name() {'',
       ''            $output = $input;'',
       ''        }'',
       ''        '']
      [''input'', ''output''])
    [(''vec4'', ''output'', ''rgba'')]"

definition RGBAUniformFunc :: shader_function where
  "RGBAUniformFunc = FunctionTemplate
    ['''',
     ''vec4 $func_name() {'',
     ''    return $rgba;'',
     ''}'',
     '''']
    [''rgba'']"

subsection \<open>LineVisual\<close>

text \<open>
  The instance: the four entries of \<^verbatim>\<open>self._opts\<close>, then \<^verbatim>\<open>self._program\<close>,
  \<^verbatim>\<open>self._vbo\<close> and \<^verbatim>\<open>self._data\<close>. The last one is created by
  \<^verbatim>\<open>_build_vbo\<close> only; before that the attribute does not exist (\<open>None\<close> here).
\<close>

record line_visual =
  opts_pos :: "ndarray option"
  opts_color :: color
  opts_width :: width
  opts_transform :: transform
  program :: "composite_program option"
  vbo :: "vertex_buffer option"
  data :: "recarray option"

text \<open>The calls a method makes outside the module.\<close>

datatype call =
    NewVertexBuffer recarray
  | NewCompositeProgram "string list" "string list"
  | GlLineWidth width
  | ProgramDraw composite_program string

datatype outcome = Returned | Raised py_error

definition set_data :: "ndarray option \<Rightarrow> color option \<Rightarrow> width option \<Rightarrow> line_visual
    \<Rightarrow> line_visual" where
  "set_data pos color width v =
     (let v1 = (case pos of None \<Rightarrow> v | Some p \<Rightarrow> v\<lparr>opts_pos := Some p\<rparr>);
          v2 = (case color of None \<Rightarrow> v1 | Some c \<Rightarrow> v1\<lparr>opts_color := c\<rparr>);
          v3 = (case width of None \<Rightarrow> v2 | Some w \<Rightarrow> v2\<lparr>opts_width := w\<rparr>)
      in v3\<lparr>vbo := None, program := None\<rparr>)"

text \<open>\<^verbatim>\<open>__init__\<close>\<close>

definition LineVisual :: "ndarray option \<Rightarrow> color option \<Rightarrow> width option \<Rightarrow> line_visual" where
  "LineVisual pos color width =
     set_data pos color width
       \<lparr>opts_pos = None, opts_color = ColorTuple [1, 1, 1, 1], opts_width = Scalar 1,
        opts_transform = NullTransform, program = None, vbo = None, data = None\<rparr>"

text \<open>The setter of the property \<^verbatim>\<open>transform\<close>\<close>

definition transform_setter :: "transform \<Rightarrow> line_visual \<Rightarrow> line_visual" where
  "transform_setter tr v = v\<lparr>opts_transform := tr, program := None\<rparr>"

text \<open>
  The methods below return three things: whether the method returned or raised, the
  instance as the method left it, and the calls it made. An exception leaves the
  assignments made before it in place.
\<close>

definition build_vbo :: "line_visual \<Rightarrow> outcome \<times> line_visual \<times> call list" where
  "build_vbo v =
     (case opts_pos v of
        None \<Rightarrow> (Raised AttributeError, v, [])
      | Some pos \<Rightarrow>
          (case shape_last (shape pos) of
             Inl e \<Rightarrow> (Raised e, v, [])
           | Inr k \<Rightarrow>
               let typ = [(''pos'', k)];
                   color = opts_color v;
                   typ = (case color of
                            ColorArray c \<Rightarrow>
                              if color_is_array color then typ @ [(''color'', last (shape c))]
                              else typ
                          | ColorTuple xs \<Rightarrow> typ);
                   d0 = np_empty (butlast (shape pos)) typ
               in (case np_setitem d0 ''pos'' pos of
                     Inl e \<Rightarrow> (Raised e, v\<lparr>data := Some d0\<rparr>, [])
                   | Inr d1 \<Rightarrow>
                       (case (case color of
                                ColorArray c \<Rightarrow>
                                  if color_is_array color then np_setitem d1 ''color'' c
                                  else Inr d1
                              | ColorTuple xs \<Rightarrow> Inr d1) of
                          Inl e \<Rightarrow> (Raised e, v\<lparr>data := Some d1\<rparr>, [])
                        | Inr d2 \<Rightarrow>
                            (Returned, v\<lparr>data := Some d2, vbo := Some (VertexBuffer d2)\<rparr>,
                             [NewVertexBuffer d2])))))"

text \<open>
  \<^verbatim>\<open>self._vbo['pos']\<close> raises TypeError when \<^verbatim>\<open>self._vbo\<close> is None; the other
  branch stores \<^verbatim>\<open>self._vbo\<close> itself, whatever it is.
\<close>

definition get_position_function :: "line_visual \<Rightarrow> py_error + bound_function" where
  "get_position_function v =
     (case data v of
        None \<Rightarrow> Inl AttributeError
      | Some d \<Rightarrow>
          (case field_shape d ''pos'' of
             Inl e \<Rightarrow> Inl e
           | Inr fs \<Rightarrow>
               (case shape_last fs of
                  Inl e \<Rightarrow> Inl e
                | Inr k \<Rightarrow>
                    if k = 2 then
                      (let func = bind XYInputFunc ''local_position''
                                    [(''xy_pos'', ''attribute'', ''vec2'', ''input_xy_pos''),
                                     (''z_pos'', ''uniform'', ''float'', ''input_z_pos'')]
                       in case vbo v of
                            None \<Rightarrow> Inl TypeError
                          | Some b \<Rightarrow>
                              Inr (stage (stage func ''input_xy_pos'' (Column b ''pos''))
                                     ''input_z_pos'' (Float 0)))
                    else
                      (let func = bind XYZInputFunc ''local_position''
                                    [(''xyz_pos'', ''attribute'', ''vec3'', ''input_xyz_pos'')]
                       in Inr (stage func ''input_xyz_pos'' (Buffer (vbo v)))))))"

definition get_color_func :: "line_visual \<Rightarrow> py_error + bound_function" where
  "get_color_func v =
     (case data v of
        None \<Rightarrow> Inl AttributeError
      | Some d \<Rightarrow>
          if ''color'' \<in> set (map fst (dtype_fields d)) then
            (let func = bind RGBAAttributeFunc ''frag_color''
                          [(''input'', ''attribute'', ''vec4'', ''input_color'')]
             in case vbo v of
                  None \<Rightarrow> Inl TypeError
                | Some b \<Rightarrow> Inr (stage func ''input_color'' (Column b ''color'')))
          else
            (let func = bind RGBAUniformFunc ''frag_color''
                          [(''rgba'', ''uniform'', ''vec4'', ''input_color'')]
             in Inr (stage func ''input_color'' (Array (np_array (opts_color v))))))"

text \<open>
  \<^verbatim>\<open>self._program\<close> is assigned before the hooks are set, and \<^verbatim>\<open>set_hook\<close>
  changes that object: an exception in between leaves the program with the hooks set
  so far.
\<close>

definition build_program :: "line_visual \<Rightarrow> outcome \<times> line_visual \<times> call list" where
  "build_program v =
     (case (if vbo v = None then build_vbo v else (Returned, v, [])) of
        (Raised e, v1, cs) \<Rightarrow> (Raised e, v1, cs)
      | (Returned, v1, cs) \<Rightarrow>
          let p0 = CompositeProgram vertex_shader fragment_shader;
              v2 = v1\<lparr>program := Some p0\<rparr>;
              cs = cs @ [NewCompositeProgram vertex_shader fragment_shader]
          in (case get_position_function v2 of
                Inl e \<Rightarrow> (Raised e, v2, cs)
              | Inr pos_func \<Rightarrow>
                  let p1 = set_hook ''local_position'' pos_func p0;
                      tr_bound = bind_map (opts_transform v2) ''map_local_to_nd'';
                      p2 = set_hook ''map_local_to_nd'' tr_bound p1;
                      v3 = v2\<lparr>program := Some p2\<rparr>
                  in (case get_color_func v3 of
                        Inl e \<Rightarrow> (Raised e, v3, cs)
                      | Inr color_func \<Rightarrow>
                          (Returned,
                           v3\<lparr>program := Some (set_hook ''frag_color'' color_func p2)\<rparr>, cs))))"

text \<open>
  After \<^verbatim>\<open>_build_program\<close> has returned \<^verbatim>\<open>self._program\<close> is set; the branch for
  None stands for the attribute error that \<^verbatim>\<open>None.draw\<close> would be.
\<close>

definition paint :: "line_visual \<Rightarrow> outcome \<times> line_visual \<times> call list" where
  "paint v =
     (case opts_pos v of
        None \<Rightarrow> (Returned, v, [])
      | Some pos \<Rightarrow>
          (case py_len pos of
             Inl e \<Rightarrow> (Raised e, v, [])
           | Inr n \<Rightarrow>
               if n = 0 then (Returned, v, [])
               else
                 (case (if program v = None then build_program v else (Returned, v, [])) of
                    (Raised e, v1, cs) \<Rightarrow> (Raised e, v1, cs)
                  | (Returned, v1, cs) \<Rightarrow>
                      let cs = cs @ [GlLineWidth (opts_width v1)]
                      in (case program v1 of
                            None \<Rightarrow> (Raised AttributeError, v1, cs)
                          | Some p \<Rightarrow> (Returned, v1, cs @ [ProgramDraw p ''LINE_STRIP''])))))"

subsection \<open>The states a caller can reach\<close>

text \<open>
  A caller has the constructor, \<^verbatim>\<open>set_data\<close>, the transform setter and
  \<^verbatim>\<open>paint\<close>; it may catch an exception of \<^verbatim>\<open>paint\<close> and go on with the
  instance as the exception left it.
\<close>

inductive reachable :: "line_visual \<Rightarrow> bool" where
  init: "reachable (LineVisual pos color width)"
| data: "reachable v \<Longrightarrow> reachable (set_data pos color width v)"
| transform: "reachable v \<Longrightarrow> reachable (transform_setter tr v)"
| painted: "reachable v \<Longrightarrow> reachable (fst (snd (paint v)))"

text \<open>
  The cached vertex buffer is current when staging the vertex data again, from the
  options as they are, would return and leave the instance as it is.
\<close>

definition vbo_current :: "line_visual \<Rightarrow> bool" where
  "vbo_current v =
     (case vbo v of
        None \<Rightarrow> True
      | Some b \<Rightarrow> fst (build_vbo v) = Returned \<and> fst (snd (build_vbo v)) = v)"

subsection \<open>Vocabulary of the statements\<close>

text \<open>The first axis of the positions exists and is not empty.\<close>

definition has_vertices :: "ndarray \<Rightarrow> bool" where
  "has_vertices pos = (case shape pos of [] \<Rightarrow> False | n # ns \<Rightarrow> 0 < n)"

text \<open>
  A per-vertex colour array can be assigned to the colour field of the records staged
  for \<open>pos\<close>; a uniform colour is not assigned to any field.
\<close>

fun color_fits :: "ndarray \<Rightarrow> color \<Rightarrow> bool" where
  "color_fits pos (ColorTuple xs) = True"
| "color_fits pos (ColorArray c) =
     (if color_is_array (ColorArray c)
      then broadcastable (shape c) (butlast (shape pos) @ [last (shape c)])
      else True)"

text \<open>\<^verbatim>\<open>paint\<close> gets to the draw: there are vertices and the colours fit them.\<close>

definition drawable :: "line_visual \<Rightarrow> bool" where
  "drawable v =
     (case opts_pos v of
        None \<Rightarrow> False
      | Some pos \<Rightarrow> has_vertices pos \<and> color_fits pos (opts_color v))"

text \<open>The number of components a GLSL type holds.\<close>

definition glsl_components :: "string \<Rightarrow> nat" where
  "glsl_components t =
     (if t = ''float'' then 1 else if t = ''vec2'' then 2 else if t = ''vec3'' then 3
      else if t = ''vec4'' then 4 else 0)"

text \<open>
  The input arity of a bound function: the components of the per-vertex attributes it
  reads.
\<close>

definition input_arity :: "bound_function \<Rightarrow> nat" where
  "input_arity f =
     sum_list (map (\<lambda>(var, storage, typ, gen). glsl_components typ)
                (filter (\<lambda>(var, storage, typ, gen). storage = ''attribute'') (roles f)))"

fun is_new_program :: "call \<Rightarrow> bool" where
  "is_new_program (NewCompositeProgram vm fm) = True"
| "is_new_program c = False"

fun is_new_buffer :: "call \<Rightarrow> bool" where
  "is_new_buffer (NewVertexBuffer d) = True"
| "is_new_buffer c = False"

fun is_draw :: "call \<Rightarrow> bool" where
  "is_draw (ProgramDraw p k) = True"
| "is_draw c = False"

subsection \<open>Hook declarations of a master template\<close>

text \<open>
  Modelled from the spec: a hook is a call site of the master template with a fixed
  signature; the class that reads the templates is \<^verbatim>\<open>CompositeProgram\<close>, of another
  module. Here the hooks of a template are the function prototypes of its text: the
  lines that start in the first column, are not comments and end with \<^verbatim>\<open>);\<close>. A
  prototype is read as return type, name and parameter list.
\<close>

definition is_prototype :: "string \<Rightarrow> bool" where
  "is_prototype l =
     (l \<noteq> [] \<and> hd l \<noteq> CHR '' '' \<and> hd l \<noteq> CHR ''/'' \<and> drop (length l - 2) l = '');'')"

definition prototype :: "string \<Rightarrow> string \<times> string \<times> string" where
  "prototype l =
     (let ret = takeWhile (\<lambda>c. c \<noteq> CHR '' '') l;
          rest = drop (length ret + 1) l;
          name = takeWhile (\<lambda>c. c \<noteq> CHR ''('') rest;
          params = takeWhile (\<lambda>c. c \<noteq> CHR '')'') (drop (length name + 1) rest)
      in (ret, name, params))"

definition declared_hooks :: "string list \<Rightarrow> (string \<times> string \<times> string) list" where
  "declared_hooks text = map prototype (filter is_prototype text)"

subsection \<open>Sample data\<close>

definition two_points :: ndarray where
  "two_points = \<lparr>shape = [2, 2], elems = [0, 0, 1, 1]\<rparr>"

definition two_points_3d :: ndarray where
  "two_points_3d = \<lparr>shape = [2, 3], elems = [0, 0, 0, 1, 1, 1]\<rparr>"

definition no_points :: ndarray where
  "no_points = \<lparr>shape = [0, 2], elems = []\<rparr>"

definition vertex_colors :: ndarray where
  "vertex_colors = \<lparr>shape = [2, 4], elems = [1, 0, 0, 1, 0, 1, 0, 1]\<rparr>"

text \<open>A visual that has been painted once: its program is built.\<close>

definition painted_line :: line_visual where
  "painted_line = fst (snd (paint (LineVisual (Some two_points) None None)))"

text \<open>
  The record \<^verbatim>\<open>_build_vbo\<close> stages for given positions and colour, written out: one
  record per position, a field \<^verbatim>\<open>pos\<close> filled from the positions, and for a
  per-vertex colour array a field \<^verbatim>\<open>color\<close> filled from it.
\<close>

definition staged_record :: "ndarray \<Rightarrow> color \<Rightarrow> recarray" where
  "staged_record pos color =
     (case color of
        ColorTuple xs \<Rightarrow>
          \<lparr>rshape = butlast (shape pos), dtype_fields = [(''pos'', last (shape pos))],
           columns = [(''pos'', pos)]\<rparr>
      | ColorArray c \<Rightarrow>
          if color_is_array color
          then \<lparr>rshape = butlast (shape pos),
                dtype_fields = [(''pos'', last (shape pos)), (''color'', last (shape c))],
                columns = [(''pos'', pos), (''color'', c)]\<rparr>
          else \<lparr>rshape = butlast (shape pos), dtype_fields = [(''pos'', last (shape pos))],
                columns = [(''pos'', pos)]\<rparr>)"

text \<open>Three colours, for two positions: they do not fit.\<close>

definition three_colors :: ndarray where
  "three_colors = \<lparr>shape = [3, 4], elems = [1, 0, 0, 1, 0, 1, 0, 1, 0, 0, 1, 1]\<rparr>"

section \<open>Properties\<close>

subsection \<open>Staging the vertex data\<close>

lemma fits_rev_refl: "fits_rev xs xs" by (induction xs) auto
lemma broadcastable_refl: "broadcastable s s" by (simp add: broadcastable_def fits_rev_refl)

lemma np_setitem_pos:
  "s \<noteq> [] \<Longrightarrow> shape a = s \<Longrightarrow>
   np_setitem (np_empty (butlast s) ((''pos'', last s) # fs)) ''pos'' a =
     Inr \<lparr>rshape = butlast s, dtype_fields = (''pos'', last s) # fs, columns = [(''pos'', a)]\<rparr>"
  by (simp add: np_setitem_def field_shape_def np_empty_def broadcastable_refl)

lemma build_vbo_uniform:
  assumes "opts_pos v = Some pos" "shape pos \<noteq> []" "\<not> color_is_array (opts_color v)"
  shows "build_vbo v =
     (let d = \<lparr>rshape = butlast (shape pos), dtype_fields = [(''pos'', last (shape pos))],
                columns = [(''pos'', pos)]\<rparr>
      in (Returned, v\<lparr>data := Some d, vbo := Some (VertexBuffer d)\<rparr>, [NewVertexBuffer d]))"
  using assms
  by (cases "opts_color v") (simp_all add: build_vbo_def shape_last_def Let_def np_setitem_pos)

lemma build_vbo_array:
  assumes "opts_pos v = Some pos" "shape pos \<noteq> []" "opts_color v = ColorArray c" "1 < ndim c"
  shows "build_vbo v =
     (let d1 = \<lparr>rshape = butlast (shape pos),
                dtype_fields = [(''pos'', last (shape pos)), (''color'', last (shape c))],
                columns = [(''pos'', pos)]\<rparr>;
          d2 = d1\<lparr>columns := [(''pos'', pos), (''color'', c)]\<rparr>
      in if broadcastable (shape c) (butlast (shape pos) @ [last (shape c)])
         then (Returned, v\<lparr>data := Some d2, vbo := Some (VertexBuffer d2)\<rparr>, [NewVertexBuffer d2])
         else (Raised ValueError, v\<lparr>data := Some d1\<rparr>, []))"
  using assms
  by (simp add: build_vbo_def shape_last_def Let_def np_setitem_pos)
     (simp add: np_setitem_def field_shape_def)

lemma build_vbo_no_pos: "opts_pos v = None \<Longrightarrow> build_vbo v = (Raised AttributeError, v, [])"
  by (simp add: build_vbo_def)

lemma build_vbo_scalar_pos:
  "opts_pos v = Some pos \<Longrightarrow> shape pos = [] \<Longrightarrow> build_vbo v = (Raised IndexError, v, [])"
  by (simp add: build_vbo_def shape_last_def)

text \<open>What \<^verbatim>\<open>_build_vbo\<close> has done when it returns.\<close>

lemma build_vbo_Returned:
  assumes "build_vbo v = (Returned, v1, cs)"
  shows "\<exists>pos d. opts_pos v = Some pos \<and> shape pos \<noteq> [] \<and> color_fits pos (opts_color v) \<and>
           v1 = v\<lparr>data := Some d, vbo := Some (VertexBuffer d)\<rparr> \<and> cs = [NewVertexBuffer d] \<and>
           map_of (dtype_fields d) ''pos'' = Some (last (shape pos)) \<and>
           (''color'' \<in> set (map fst (dtype_fields d))) = color_is_array (opts_color v)"
proof (cases "opts_pos v")
  case None
  with assms show ?thesis by (simp add: build_vbo_no_pos)
next
  case (Some pos)
  show ?thesis
  proof (cases "shape pos = []")
    case True
    with Some assms show ?thesis by (simp add: build_vbo_scalar_pos)
  next
    case False
    show ?thesis
    proof (cases "color_is_array (opts_color v)")
      case uniform: False
      from assms show ?thesis
        unfolding build_vbo_uniform [OF Some False uniform] Let_def
        using Some False uniform by (cases "opts_color v") auto
    next
      case True
      then obtain c where c: "opts_color v = ColorArray c" "1 < ndim c"
        by (cases "opts_color v") auto
      from assms show ?thesis
        unfolding build_vbo_array [OF Some False c] Let_def
        using Some False c by (auto split: if_splits)
    qed
  qed
qed

lemma build_vbo_returns:
  assumes "opts_pos v = Some pos" "shape pos \<noteq> []" "color_fits pos (opts_color v)"
  shows "fst (build_vbo v) = Returned"
proof (cases "color_is_array (opts_color v)")
  case False
  show ?thesis by (simp add: build_vbo_uniform [OF assms(1,2) False] Let_def)
next
  case True
  then obtain c where c: "opts_color v = ColorArray c" "1 < ndim c"
    by (cases "opts_color v") auto
  with assms(3) show ?thesis by (simp add: build_vbo_array [OF assms(1,2) c] Let_def)
qed

lemma build_vbo_frame:
  "build_vbo (v\<lparr>opts_transform := tr, program := p\<rparr>) =
     (case build_vbo v of (r, v1, cs) \<Rightarrow> (r, v1\<lparr>opts_transform := tr, program := p\<rparr>, cs))"
  by (simp add: build_vbo_def Let_def split: option.splits sum.splits color.splits)

lemma build_vbo_frame_program:
  "build_vbo (v\<lparr>program := p\<rparr>) =
     (case build_vbo v of (r, v1, cs) \<Rightarrow> (r, v1\<lparr>program := p\<rparr>, cs))"
  by (simp add: build_vbo_def Let_def split: option.splits sum.splits color.splits)

lemma build_vbo_again:
  "build_vbo v = (Returned, v1, cs) \<Longrightarrow> build_vbo (v\<lparr>data := d, vbo := b\<rparr>) = (Returned, v1, cs)"
  by (auto simp: build_vbo_def Let_def split: option.splits sum.splits color.splits if_splits)

lemma build_vbo_idem:
  assumes "build_vbo v = (Returned, v1, cs)"
  shows "build_vbo v1 = (Returned, v1, cs)"
proof -
  from build_vbo_Returned [OF assms] obtain d
    where "v1 = v\<lparr>data := Some d, vbo := Some (VertexBuffer d)\<rparr>" by blast
  then show ?thesis using assms by (simp add: build_vbo_again)
qed

lemma vbo_current_init: "vbo v = None \<Longrightarrow> vbo_current v"
  by (simp add: vbo_current_def)

lemma vbo_current_built:
  "build_vbo v = (Returned, v1, cs) \<Longrightarrow> vbo_current v1"
  by (simp add: vbo_current_def build_vbo_idem split: option.splits)

lemma vbo_current_program:
  "vbo_current v \<Longrightarrow> vbo_current (v\<lparr>program := p\<rparr>)"
  by (auto simp: vbo_current_def build_vbo_frame_program split: option.splits prod.splits)

lemma vbo_current_transform:
  "vbo_current v \<Longrightarrow> vbo_current (v\<lparr>opts_transform := tr, program := p\<rparr>)"
  by (auto simp: vbo_current_def build_vbo_frame split: option.splits prod.splits)

lemma vbo_current_staged:
  assumes "vbo_current v" "vbo v = Some b"
  shows "\<exists>pos d. opts_pos v = Some pos \<and> shape pos \<noteq> [] \<and> color_fits pos (opts_color v) \<and>
           data v = Some d \<and> b = VertexBuffer d \<and>
           map_of (dtype_fields d) ''pos'' = Some (last (shape pos)) \<and>
           (''color'' \<in> set (map fst (dtype_fields d))) = color_is_array (opts_color v)"
proof -
  obtain cs where b: "build_vbo v = (Returned, v, cs)"
    using assms by (cases "build_vbo v") (auto simp: vbo_current_def)
  from build_vbo_Returned [OF b] obtain pos d where
    *: "opts_pos v = Some pos" "shape pos \<noteq> []" "color_fits pos (opts_color v)"
       "v = v\<lparr>data := Some d, vbo := Some (VertexBuffer d)\<rparr>"
       "map_of (dtype_fields d) ''pos'' = Some (last (shape pos))"
       "(''color'' \<in> set (map fst (dtype_fields d))) = color_is_array (opts_color v)"
    by blast
  from *(4) have "data v = Some d" "vbo v = Some (VertexBuffer d)"
    by (metis line_visual.select_convs(7) line_visual.surjective line_visual.update_convs(6,7),
        metis line_visual.select_convs(6) line_visual.surjective line_visual.update_convs(6,7))
  with * assms(2) show ?thesis by auto
qed


lemma get_position_function_program:
  "get_position_function (v\<lparr>program := p\<rparr>) = get_position_function v"
  by (simp add: get_position_function_def Let_def split: option.splits sum.splits)

lemma get_color_func_program:
  "get_color_func (v\<lparr>program := p\<rparr>) = get_color_func v"
  by (simp add: get_color_func_def Let_def split: option.splits sum.splits)

lemma get_position_function_staged:
  assumes "data v = Some d" "map_of (dtype_fields d) ''pos'' = Some k" "vbo v = Some b"
  shows "get_position_function v =
     Inr (if k = 2
          then BoundFunction XYInputFunc ''local_position''
                 [(''xy_pos'', ''attribute'', ''vec2'', ''input_xy_pos''),
                  (''z_pos'', ''uniform'', ''float'', ''input_z_pos'')]
                 [(''input_xy_pos'', Column b ''pos''), (''input_z_pos'', Float 0)]
          else BoundFunction XYZInputFunc ''local_position''
                 [(''xyz_pos'', ''attribute'', ''vec3'', ''input_xyz_pos'')]
                 [(''input_xyz_pos'', Buffer (Some b))])"
  using assms
  by (simp add: get_position_function_def field_shape_def shape_last_def bind_def)

lemma get_color_func_staged:
  assumes "data v = Some d" "vbo v = Some b"
  shows "get_color_func v =
     Inr (if ''color'' \<in> set (map fst (dtype_fields d))
          then BoundFunction RGBAAttributeFunc ''frag_color''
                 [(''input'', ''attribute'', ''vec4'', ''input_color'')]
                 [(''input_color'', Column b ''color'')]
          else BoundFunction RGBAUniformFunc ''frag_color''
                 [(''rgba'', ''uniform'', ''vec4'', ''input_color'')]
                 [(''input_color'', Array (np_array (opts_color v)))])"
  using assms
  by (simp add: get_color_func_def bind_def)

lemma build_program_staged:
  assumes "vbo v = Some b" "data v = Some d" "map_of (dtype_fields d) ''pos'' = Some k"
  shows "\<exists>pf cf. get_position_function v = Inr pf \<and> get_color_func v = Inr cf \<and>
           build_program v =
             (Returned,
              v\<lparr>program := Some \<lparr>vmain = vertex_shader, fmain = fragment_shader,
                    hooks = [(''local_position'', pf),
                             (''map_local_to_nd'', BoundMap (opts_transform v) ''map_local_to_nd''),
                             (''frag_color'', cf)]\<rparr>\<rparr>,
              [NewCompositeProgram vertex_shader fragment_shader])"
proof -
  obtain pf where pf: "get_position_function v = Inr pf"
    using get_position_function_staged [OF assms(2,3,1)] by simp
  obtain cf where cf: "get_color_func v = Inr cf"
    using get_color_func_staged [OF assms(2,1)] by simp
  show ?thesis
    using assms(1) pf cf
    by (simp add: build_program_def Let_def get_position_function_program
          get_color_func_program set_hook_def CompositeProgram_def bind_map_def)
qed

lemma build_program_unstaged:
  assumes "vbo v = None" "build_vbo v = (Returned, v1, cs)"
  shows "build_program v = (case build_program v1 of (r, v2, cs2) \<Rightarrow> (r, v2, cs @ cs2))"
proof -
  from build_vbo_Returned [OF assms(2)] have "vbo v1 \<noteq> None" by auto
  then show ?thesis using assms
    by (auto simp: build_program_def Let_def split: sum.splits prod.splits outcome.splits)
qed

lemma build_program_vbo_raised:
  "vbo v = None \<Longrightarrow> build_vbo v = (Raised e, v1, cs) \<Longrightarrow> build_program v = (Raised e, v1, cs)"
  by (simp add: build_program_def)


lemma build_vbo_opts:
  "build_vbo v = (r, v1, cs) \<Longrightarrow>
     opts_pos v1 = opts_pos v \<and> opts_color v1 = opts_color v \<and> opts_width v1 = opts_width v \<and>
     opts_transform v1 = opts_transform v \<and> program v1 = program v"
  by (auto simp: build_vbo_def Let_def split: option.splits sum.splits color.splits if_splits)

lemma build_vbo_Raised:
  "build_vbo v = (Raised e, v1, cs) \<Longrightarrow> cs = [] \<and> vbo v1 = vbo v"
  by (auto simp: build_vbo_def Let_def split: option.splits sum.splits color.splits if_splits)

text \<open>The course of every run of \<^verbatim>\<open>_build_program\<close>.\<close>

lemma build_program_shape:
  assumes "build_program v = (r, v1, cs)"
  shows "\<exists>r0 v0 cs0. (if vbo v = None then build_vbo v else (Returned, v, [])) = (r0, v0, cs0) \<and>
     (case r0 of
        Raised e \<Rightarrow> r = Raised e \<and> v1 = v0 \<and> cs = cs0
      | Returned \<Rightarrow>
          (\<exists>p. v1 = v0\<lparr>program := Some p\<rparr> \<and> vmain p = vertex_shader \<and> fmain p = fragment_shader \<and>
               cs = cs0 @ [NewCompositeProgram vertex_shader fragment_shader] \<and>
               (r = Returned \<longrightarrow>
                  map fst (hooks p) = [''local_position'', ''map_local_to_nd'', ''frag_color''])))"
proof -
  obtain r0 v0 cs0 where s: "(if vbo v = None then build_vbo v else (Returned, v, [])) = (r0, v0, cs0)"
    by (cases "if vbo v = None then build_vbo v else (Returned, v, [])") auto
  show ?thesis
  proof (cases r0)
    case (Raised e)
    with s assms show ?thesis by (auto simp: build_program_def)
  next
    case Returned
    with s assms show ?thesis
      by (auto simp: build_program_def Let_def set_hook_def CompositeProgram_def
            split: sum.splits)
  qed
qed

lemma paint_no_pos: "opts_pos v = None \<Longrightarrow> paint v = (Returned, v, [])"
  by (simp add: paint_def)

lemma paint_empty:
  "opts_pos v = Some pos \<Longrightarrow> py_len pos = Inr 0 \<Longrightarrow> paint v = (Returned, v, [])"
  by (simp add: paint_def)

lemma paint_scalar:
  "opts_pos v = Some pos \<Longrightarrow> shape pos = [] \<Longrightarrow> paint v = (Raised TypeError, v, [])"
  by (simp add: paint_def py_len_def)

lemma has_vertices_len: "has_vertices pos \<longleftrightarrow> (\<exists>n. py_len pos = Inr n \<and> 0 < n)"
  by (auto simp: has_vertices_def py_len_def split: list.splits)

lemma paint_built:
  "opts_pos v = Some pos \<Longrightarrow> has_vertices pos \<Longrightarrow> program v = Some p \<Longrightarrow>
   paint v = (Returned, v, [GlLineWidth (opts_width v), ProgramDraw p ''LINE_STRIP''])"
  by (auto simp: paint_def has_vertices_len)

lemma paint_unbuilt:
  "opts_pos v = Some pos \<Longrightarrow> has_vertices pos \<Longrightarrow> program v = None \<Longrightarrow>
   paint v =
     (case build_program v of
        (Raised e, v1, cs) \<Rightarrow> (Raised e, v1, cs)
      | (Returned, v1, cs) \<Rightarrow>
          (case program v1 of
             None \<Rightarrow> (Raised AttributeError, v1, cs @ [GlLineWidth (opts_width v1)])
           | Some p \<Rightarrow>
               (Returned, v1, cs @ [GlLineWidth (opts_width v1), ProgramDraw p ''LINE_STRIP''])))"
  by (auto simp: paint_def has_vertices_len Let_def split: prod.splits outcome.splits option.splits)

subsection \<open>The cached vertex buffer is current in every reachable state\<close>

lemma build_program_current:
  assumes "vbo_current v" "build_program v = (r, v1, cs)"
  shows "vbo_current v1"
proof -
  from build_program_shape [OF assms(2)] obtain r0 v0 cs0 where
    s: "(if vbo v = None then build_vbo v else (Returned, v, [])) = (r0, v0, cs0)" and
    c: "case r0 of Raised e \<Rightarrow> r = Raised e \<and> v1 = v0 \<and> cs = cs0
        | Returned \<Rightarrow> (\<exists>p. v1 = v0\<lparr>program := Some p\<rparr> \<and> vmain p = vertex_shader \<and>
            fmain p = fragment_shader \<and>
            cs = cs0 @ [NewCompositeProgram vertex_shader fragment_shader] \<and>
            (r = Returned \<longrightarrow>
               map fst (hooks p) = [''local_position'', ''map_local_to_nd'', ''frag_color'']))"
    by blast
  have "vbo_current v0"
  proof (cases "vbo v = None")
    case False
    with s assms(1) show ?thesis by simp
  next
    case True
    show ?thesis
    proof (cases r0)
      case Returned
      with s True show ?thesis by (simp add: vbo_current_built)
    next
      case (Raised e)
      with s True have "vbo v0 = None" using build_vbo_Raised [of v e v0 cs0] by simp
      then show ?thesis by (rule vbo_current_init)
    qed
  qed
  with c show ?thesis by (cases r0) (auto simp: vbo_current_program)
qed

lemma paint_current:
  assumes "vbo_current v"
  shows "vbo_current (fst (snd (paint v)))"
proof (cases "opts_pos v")
  case None
  with assms show ?thesis by (simp add: paint_no_pos)
next
  case (Some pos)
  show ?thesis
  proof (cases "has_vertices pos")
    case False
    then have "paint v = (Returned, v, []) \<or> paint v = (Raised TypeError, v, [])"
      using Some by (cases "shape pos") (auto simp: has_vertices_def paint_def py_len_def)
    with assms show ?thesis by auto
  next
    case True
    show ?thesis
    proof (cases "program v")
      case (Some p)
      with \<open>opts_pos v = Some pos\<close> True assms show ?thesis by (simp add: paint_built)
    next
      case None
      obtain r v1 cs where b: "build_program v = (r, v1, cs)" by (cases "build_program v") auto
      from build_program_current [OF assms b] have "vbo_current v1" .
      then show ?thesis
        using paint_unbuilt [OF \<open>opts_pos v = Some pos\<close> True None] b
        by (auto split: outcome.splits option.splits)
    qed
  qed
qed

lemma set_data_caches:
  "vbo (set_data pos color width v) = None \<and> program (set_data pos color width v) = None"
  by (simp add: set_data_def Let_def split: option.splits)

lemma reachable_current: "reachable v \<Longrightarrow> vbo_current v"
proof (induction rule: reachable.induct)
  case (init pos color width)
  show ?case by (simp add: LineVisual_def set_data_caches vbo_current_init)
next
  case (data v pos color width)
  show ?case by (simp add: set_data_caches vbo_current_init)
next
  case (transform v tr)
  then show ?case by (simp add: transform_setter_def vbo_current_transform)
next
  case (painted v)
  from painted.IH show ?case by (rule paint_current)
qed

subsection \<open>What a program build produces\<close>

lemma build_program_result:
  assumes "vbo_current v" "opts_pos v = Some pos" "shape pos \<noteq> []"
    "color_fits pos (opts_color v)"
  shows "\<exists>d pf cf v1.
     v1 = v\<lparr>data := Some d, vbo := Some (VertexBuffer d)\<rparr> \<and>
     (vbo v \<noteq> None \<longrightarrow> v1 = v) \<and>
     map_of (dtype_fields d) ''pos'' = Some (last (shape pos)) \<and>
     (''color'' \<in> set (map fst (dtype_fields d))) = color_is_array (opts_color v) \<and>
     get_position_function v1 = Inr pf \<and> get_color_func v1 = Inr cf \<and>
     build_program v =
       (Returned,
        v1\<lparr>program := Some \<lparr>vmain = vertex_shader, fmain = fragment_shader,
              hooks = [(''local_position'', pf),
                       (''map_local_to_nd'', BoundMap (opts_transform v) ''map_local_to_nd''),
                       (''frag_color'', cf)]\<rparr>\<rparr>,
        (if vbo v = None then [NewVertexBuffer d] else []) @
        [NewCompositeProgram vertex_shader fragment_shader])"
proof (cases "vbo v")
  case (Some b)
  from vbo_current_staged [OF assms(1) Some] assms(2) obtain d where
    d: "data v = Some d" "b = VertexBuffer d"
       "map_of (dtype_fields d) ''pos'' = Some (last (shape pos))"
       "(''color'' \<in> set (map fst (dtype_fields d))) = color_is_array (opts_color v)"
    by auto
  have same: "v\<lparr>data := Some d, vbo := Some (VertexBuffer d)\<rparr> = v"
    using d(1,2) Some by simp
  from build_program_staged [OF Some d(1) d(3)] obtain pf cf where
    "get_position_function v = Inr pf" "get_color_func v = Inr cf"
    "build_program v =
       (Returned,
        v\<lparr>program := Some \<lparr>vmain = vertex_shader, fmain = fragment_shader,
              hooks = [(''local_position'', pf),
                       (''map_local_to_nd'', BoundMap (opts_transform v) ''map_local_to_nd''),
                       (''frag_color'', cf)]\<rparr>\<rparr>,
        [NewCompositeProgram vertex_shader fragment_shader])"
    by blast
  with same d(3,4) Some show ?thesis by auto
next
  case None
  obtain v1 cs where b: "build_vbo v = (Returned, v1, cs)"
    using build_vbo_returns [OF assms(2,3,4)] by (cases "build_vbo v") auto
  from build_vbo_Returned [OF b] assms(2) obtain d where
    d: "v1 = v\<lparr>data := Some d, vbo := Some (VertexBuffer d)\<rparr>" "cs = [NewVertexBuffer d]"
       "map_of (dtype_fields d) ''pos'' = Some (last (shape pos))"
       "(''color'' \<in> set (map fst (dtype_fields d))) = color_is_array (opts_color v)"
    by auto
  have v1: "vbo v1 = Some (VertexBuffer d)" "data v1 = Some d" "opts_transform v1 = opts_transform v"
    using d(1) by simp_all
  from build_program_staged [OF v1(1,2) d(3)] obtain pf cf where
    r: "get_position_function v1 = Inr pf" "get_color_func v1 = Inr cf"
    "build_program v1 =
       (Returned,
        v1\<lparr>program := Some \<lparr>vmain = vertex_shader, fmain = fragment_shader,
              hooks = [(''local_position'', pf),
                       (''map_local_to_nd'', BoundMap (opts_transform v1) ''map_local_to_nd''),
                       (''frag_color'', cf)]\<rparr>\<rparr>,
        [NewCompositeProgram vertex_shader fragment_shader])"
    by blast
  from build_program_unstaged [OF None b] r(3) v1(3) d(2)
  have "build_program v =
       (Returned,
        v1\<lparr>program := Some \<lparr>vmain = vertex_shader, fmain = fragment_shader,
              hooks = [(''local_position'', pf),
                       (''map_local_to_nd'', BoundMap (opts_transform v) ''map_local_to_nd''),
                       (''frag_color'', cf)]\<rparr>\<rparr>,
        [NewVertexBuffer d, NewCompositeProgram vertex_shader fragment_shader])"
    by simp
  with d r(1,2) None show ?thesis by auto
qed

lemma drawable_pos:
  "drawable v \<longleftrightarrow> (\<exists>pos. opts_pos v = Some pos \<and> has_vertices pos \<and> color_fits pos (opts_color v))"
  by (simp add: drawable_def split: option.splits)

lemma has_vertices_shape: "has_vertices pos \<Longrightarrow> shape pos \<noteq> []"
  by (auto simp: has_vertices_def)

lemma paint_result:
  assumes "vbo_current v" "program v = None" "opts_pos v = Some pos" "has_vertices pos"
    "color_fits pos (opts_color v)"
  shows "\<exists>d pf cf v1 p.
     v1 = v\<lparr>data := Some d, vbo := Some (VertexBuffer d)\<rparr> \<and>
     (vbo v \<noteq> None \<longrightarrow> v1 = v) \<and>
     map_of (dtype_fields d) ''pos'' = Some (last (shape pos)) \<and>
     (''color'' \<in> set (map fst (dtype_fields d))) = color_is_array (opts_color v) \<and>
     get_position_function v1 = Inr pf \<and> get_color_func v1 = Inr cf \<and>
     p = \<lparr>vmain = vertex_shader, fmain = fragment_shader,
           hooks = [(''local_position'', pf),
                    (''map_local_to_nd'', BoundMap (opts_transform v) ''map_local_to_nd''),
                    (''frag_color'', cf)]\<rparr> \<and>
     paint v =
       (Returned, v1\<lparr>program := Some p\<rparr>,
        (if vbo v = None then [NewVertexBuffer d] else []) @
        [NewCompositeProgram vertex_shader fragment_shader,
         GlLineWidth (opts_width v), ProgramDraw p ''LINE_STRIP''])"
proof -
  from build_program_result [OF assms(1,3) has_vertices_shape [OF assms(4)] assms(5)]
  obtain d pf cf v1 where
    r: "v1 = v\<lparr>data := Some d, vbo := Some (VertexBuffer d)\<rparr>"
       "vbo v \<noteq> None \<longrightarrow> v1 = v"
       "map_of (dtype_fields d) ''pos'' = Some (last (shape pos))"
       "(''color'' \<in> set (map fst (dtype_fields d))) = color_is_array (opts_color v)"
       "get_position_function v1 = Inr pf" "get_color_func v1 = Inr cf"
       "build_program v =
         (Returned,
          v1\<lparr>program := Some \<lparr>vmain = vertex_shader, fmain = fragment_shader,
                hooks = [(''local_position'', pf),
                         (''map_local_to_nd'', BoundMap (opts_transform v) ''map_local_to_nd''),
                         (''frag_color'', cf)]\<rparr>\<rparr>,
          (if vbo v = None then [NewVertexBuffer d] else []) @
          [NewCompositeProgram vertex_shader fragment_shader])"
    by blast
  have w: "opts_width v1 = opts_width v" using r(1) by simp
  have "paint v =
       (Returned,
        v1\<lparr>program := Some \<lparr>vmain = vertex_shader, fmain = fragment_shader,
              hooks = [(''local_position'', pf),
                       (''map_local_to_nd'', BoundMap (opts_transform v) ''map_local_to_nd''),
                       (''frag_color'', cf)]\<rparr>\<rparr>,
        (if vbo v = None then [NewVertexBuffer d] else []) @
        [NewCompositeProgram vertex_shader fragment_shader,
         GlLineWidth (opts_width v),
         ProgramDraw \<lparr>vmain = vertex_shader, fmain = fragment_shader,
              hooks = [(''local_position'', pf),
                       (''map_local_to_nd'', BoundMap (opts_transform v) ''map_local_to_nd''),
                       (''frag_color'', cf)]\<rparr> ''LINE_STRIP''])"
    using w by (simp add: paint_unbuilt [OF assms(3,4,2)] r(7))
  with r(1-6) show ?thesis by blast
qed

lemma build_program_Returned_pos:
  assumes "vbo_current v" "opts_pos v = Some pos" "build_program v = (Returned, v', cs)"
  shows "shape pos \<noteq> [] \<and> color_fits pos (opts_color v)"
proof (cases "vbo v")
  case (Some b)
  from vbo_current_staged [OF assms(1) Some] assms(2) show ?thesis by auto
next
  case None
  obtain r0 v0 cs0 where s: "build_vbo v = (r0, v0, cs0)"
    by (cases "build_vbo v") auto
  have "r0 = Returned"
  proof (cases r0)
    case (Raised e)
    with build_program_vbo_raised [OF None] s assms(3) show ?thesis by simp
  qed
  with s have "build_vbo v = (Returned, v0, cs0)" by simp
  from build_vbo_Returned [OF this] assms(2) show ?thesis by auto
qed

text \<open>The definitions that running the model on given data unfolds.\<close>

lemmas run_defs =
  paint_def build_program_def build_vbo_def get_position_function_def get_color_func_def
  LineVisual_def set_data_def transform_setter_def py_len_def shape_last_def np_empty_def
  np_setitem_def field_shape_def broadcastable_def bind_def set_hook_def CompositeProgram_def
  bind_map_def ndim_def Let_def

lemma sample_build_returns:
  "fst (build_program (LineVisual (Some two_points_3d) None None)) = Returned"
  by (simp add: run_defs two_points_3d_def)

lemma LineVisual_fields:
  "opts_pos (LineVisual pos color width) = pos"
  "opts_color (LineVisual pos color width) =
     (case color of None \<Rightarrow> ColorTuple [1, 1, 1, 1] | Some c \<Rightarrow> c)"
  "opts_width (LineVisual pos color width) = (case width of None \<Rightarrow> Scalar 1 | Some w \<Rightarrow> w)"
  "opts_transform (LineVisual pos color width) = NullTransform"
  "program (LineVisual pos color width) = None"
  "vbo (LineVisual pos color width) = None"
  by (simp_all add: LineVisual_def set_data_def Let_def split: option.splits)

lemma color_fits_uniform: "\<not> color_is_array c \<Longrightarrow> color_fits pos c"
  by (cases c) auto

lemma painted_line_program: "program painted_line \<noteq> None"
  by (simp add: painted_line_def run_defs two_points_def)

lemma set_data_width_opts:
  "opts_pos (set_data None None (Some w) v) = opts_pos v"
  "opts_color (set_data None None (Some w) v) = opts_color v"
  "opts_width (set_data None None (Some w) v) = w"
  "opts_transform (set_data None None (Some w) v) = opts_transform v"
  by (simp_all add: set_data_def)

subsection \<open>The course of a paint\<close>

text \<open>Building the program leaves the options alone.\<close>

lemma build_program_opts:
  assumes "build_program v = (r, v1, cs)"
  shows "opts_pos v1 = opts_pos v \<and> opts_color v1 = opts_color v \<and>
     opts_width v1 = opts_width v \<and> opts_transform v1 = opts_transform v"
proof -
  from build_program_shape [OF assms] obtain r0 v0 cs0 where
    s: "(if vbo v = None then build_vbo v else (Returned, v, [])) = (r0, v0, cs0)" and
    c: "case r0 of Raised e \<Rightarrow> r = Raised e \<and> v1 = v0 \<and> cs = cs0
        | Returned \<Rightarrow> (\<exists>p. v1 = v0\<lparr>program := Some p\<rparr> \<and> vmain p = vertex_shader \<and>
            fmain p = fragment_shader \<and>
            cs = cs0 @ [NewCompositeProgram vertex_shader fragment_shader] \<and>
            (r = Returned \<longrightarrow>
               map fst (hooks p) = [''local_position'', ''map_local_to_nd'', ''frag_color'']))"
    by blast
  have "opts_pos v0 = opts_pos v \<and> opts_color v0 = opts_color v \<and>
     opts_width v0 = opts_width v \<and> opts_transform v0 = opts_transform v"
    using s build_vbo_opts [of v r0 v0 cs0] by (cases "vbo v = None") auto
  with c show ?thesis by (cases r0) auto
qed

lemma build_program_calls:
  assumes "build_program v = (r, v1, cs)"
  shows "((\<exists>e. r = Raised e) \<and> cs = [] \<and> program v1 = program v) \<or>
     (\<exists>p pre. program v1 = Some p \<and> vmain p = vertex_shader \<and> fmain p = fragment_shader \<and>
        cs = pre @ [NewCompositeProgram vertex_shader fragment_shader] \<and>
        (pre = [] \<or> (\<exists>d. pre = [NewVertexBuffer d])) \<and>
        (r = Returned \<longrightarrow>
           map fst (hooks p) = [''local_position'', ''map_local_to_nd'', ''frag_color'']))"
proof -
  from build_program_shape [OF assms] obtain r0 v0 cs0 where
    s: "(if vbo v = None then build_vbo v else (Returned, v, [])) = (r0, v0, cs0)" and
    c: "case r0 of Raised e \<Rightarrow> r = Raised e \<and> v1 = v0 \<and> cs = cs0
        | Returned \<Rightarrow> (\<exists>p. v1 = v0\<lparr>program := Some p\<rparr> \<and> vmain p = vertex_shader \<and>
            fmain p = fragment_shader \<and>
            cs = cs0 @ [NewCompositeProgram vertex_shader fragment_shader] \<and>
            (r = Returned \<longrightarrow>
               map fst (hooks p) = [''local_position'', ''map_local_to_nd'', ''frag_color'']))"
    by blast
  show ?thesis
  proof (cases r0)
    case (Raised e)
    with s have b: "vbo v = None" "build_vbo v = (Raised e, v0, cs0)"
      by (auto split: if_splits)
    from build_vbo_Raised [OF b(2)] build_vbo_opts [OF b(2)] c Raised
    show ?thesis by simp
  next
    case Returned
    have "cs0 = [] \<or> (\<exists>d. cs0 = [NewVertexBuffer d])"
    proof (cases "vbo v = None")
      case True
      with s Returned have "build_vbo v = (Returned, v0, cs0)" by simp
      from build_vbo_Returned [OF this] show ?thesis by auto
    next
      case False
      with s show ?thesis by simp
    qed
    with c Returned show ?thesis by auto
  qed
qed

text \<open>The course of every run of \<^verbatim>\<open>paint\<close>.\<close>

lemma paint_shape:
  assumes "paint v = (r, v1, cs)"
  shows "(r = Returned \<and> v1 = v \<and> cs = [] \<and>
            (opts_pos v = None \<or> (\<exists>pos. opts_pos v = Some pos \<and> py_len pos = Inr 0))) \<or>
         (r = Raised TypeError \<and> v1 = v \<and> cs = [] \<and>
            (\<exists>pos. opts_pos v = Some pos \<and> shape pos = [])) \<or>
         (\<exists>pos. opts_pos v = Some pos \<and> has_vertices pos \<and>
            ((\<exists>p. program v = Some p \<and> r = Returned \<and> v1 = v \<and>
                  cs = [GlLineWidth (opts_width v), ProgramDraw p ''LINE_STRIP'']) \<or>
             (program v = None \<and> (\<exists>e. build_program v = (Raised e, v1, cs) \<and> r = Raised e)) \<or>
             (program v = None \<and>
                (\<exists>cs0 p. build_program v = (Returned, v1, cs0) \<and> program v1 = Some p \<and>
                   r = Returned \<and>
                   cs = cs0 @ [GlLineWidth (opts_width v), ProgramDraw p ''LINE_STRIP'']))))"
proof (cases "opts_pos v")
  case None
  with assms show ?thesis by (auto simp: paint_no_pos)
next
  case (Some pos)
  show ?thesis
  proof (cases "shape pos")
    case Nil
    with Some assms show ?thesis by (auto simp: paint_scalar)
  next
    case (Cons n ns)
    show ?thesis
    proof (cases "n = 0")
      case True
      with Cons have "py_len pos = Inr 0" by (simp add: py_len_def)
      with Some assms show ?thesis by (auto simp: paint_empty)
    next
      case False
      with Cons have hv: "has_vertices pos" by (simp add: has_vertices_def)
      show ?thesis
      proof (cases "program v")
        case (Some p)
        with \<open>opts_pos v = Some pos\<close> hv assms show ?thesis by (auto simp: paint_built)
      next
        case None
        obtain r0 v0 cs0 where b: "build_program v = (r0, v0, cs0)"
          by (cases "build_program v") auto
        show ?thesis
        proof (cases r0)
          case (Raised e)
          with b assms paint_unbuilt [OF \<open>opts_pos v = Some pos\<close> hv None]
          show ?thesis using \<open>opts_pos v = Some pos\<close> hv None by auto
        next
          case Returned
          from build_program_calls [OF b] Returned obtain p where
            p: "program v0 = Some p"
            by auto
          from build_program_opts [OF b] have w: "opts_width v0 = opts_width v" by simp
          from b assms paint_unbuilt [OF \<open>opts_pos v = Some pos\<close> hv None] Returned p w
          show ?thesis using \<open>opts_pos v = Some pos\<close> hv None by auto
        qed
      qed
    qed
  qed
qed

lemma paint_opts:
  assumes "paint v = (r, v1, cs)"
  shows "opts_pos v1 = opts_pos v \<and> opts_color v1 = opts_color v \<and>
     opts_width v1 = opts_width v \<and> opts_transform v1 = opts_transform v"
  using paint_shape [OF assms]
  by (auto dest: build_program_opts)

lemma paint_cached:
  assumes "program v = Some p" "paint v = (r, v1, cs)"
  shows "v1 = v \<and> filter is_new_program cs = [] \<and> filter is_new_buffer cs = [] \<and>
     (r = Returned \<or> r = Raised TypeError)"
  using paint_shape [OF assms(2)] assms(1) by auto

lemma paint_new_program:
  assumes "paint v = (r, v1, cs)"
  shows "filter is_new_program cs = [] \<or>
     (filter is_new_program cs = [NewCompositeProgram vertex_shader fragment_shader] \<and>
      program v = None \<and> program v1 \<noteq> None)"
proof (cases "program v")
  case (Some p)
  from paint_cached [OF Some assms] show ?thesis by simp
next
  case None
  from paint_shape [OF assms] consider
    "cs = []" |
    r0 cs0 where "build_program v = (r0, v1, cs0)" "cs = cs0 \<or>
       (\<exists>p. cs = cs0 @ [GlLineWidth (opts_width v), ProgramDraw p ''LINE_STRIP''])"
    using None by auto
  then show ?thesis
  proof cases
    case 1
    then show ?thesis by simp
  next
    case 2
    from build_program_calls [OF 2(1)] 2(2) None show ?thesis by auto
  qed
qed

lemma paint_Returned_again:
  assumes "paint v = (Returned, v1, cs)"
  shows "paint v1 = (Returned, v1, []) \<or>
     (\<exists>p. program v1 = Some p \<and>
        paint v1 = (Returned, v1, [GlLineWidth (opts_width v1), ProgramDraw p ''LINE_STRIP'']))"
proof -
  from paint_opts [OF assms] have o: "opts_pos v1 = opts_pos v" by simp
  from paint_shape [OF assms] consider
    "v1 = v" "cs = []" |
    pos p where "opts_pos v = Some pos" "has_vertices pos" "program v1 = Some p"
    by auto
  then show ?thesis
  proof cases
    case 1
    with assms show ?thesis by simp
  next
    case 2
    from paint_built [of v1 pos p] 2 o show ?thesis by simp
  qed
qed

lemma painted_line_paint:
  "paint (LineVisual (Some two_points) None None) =
     (Returned, painted_line, snd (snd (paint (LineVisual (Some two_points) None None))))"
  "length (filter is_new_program (snd (snd (paint (LineVisual (Some two_points) None None))))) = 1"
  by (simp_all add: painted_line_def run_defs two_points_def)

lemma paint_drawable:
  assumes "vbo_current v" "drawable v"
  shows "\<exists>v' p pre. paint v =
      (Returned, v', pre @ [GlLineWidth (opts_width v), ProgramDraw p ''LINE_STRIP'']) \<and>
      program v' = Some p"
proof -
  from assms(2) obtain pos where
    pos: "opts_pos v = Some pos" "has_vertices pos" "color_fits pos (opts_color v)"
    by (auto simp: drawable_pos)
  show ?thesis
  proof (cases "program v")
    case (Some p)
    from paint_built [OF pos(1,2) Some] Some show ?thesis by simp
  next
    case None
    from paint_result [OF assms(1) None pos] obtain d v1 p where
      "paint v =
         (Returned, v1\<lparr>program := Some p\<rparr>,
          (if vbo v = None then [NewVertexBuffer d] else []) @
          [NewCompositeProgram vertex_shader fragment_shader,
           GlLineWidth (opts_width v), ProgramDraw p ''LINE_STRIP''])"
      by blast
    then have "paint v =
         (Returned, v1\<lparr>program := Some p\<rparr>,
          ((if vbo v = None then [NewVertexBuffer d] else []) @
          [NewCompositeProgram vertex_shader fragment_shader]) @
          [GlLineWidth (opts_width v), ProgramDraw p ''LINE_STRIP'']) \<and>
        program (v1\<lparr>program := Some p\<rparr>) = Some p"
      by simp
    then show ?thesis by blast
  qed
qed

lemma transform_setter_fields:
  "opts_pos (transform_setter tr v) = opts_pos v"
  "opts_color (transform_setter tr v) = opts_color v"
  "opts_width (transform_setter tr v) = opts_width v"
  "opts_transform (transform_setter tr v) = tr"
  "program (transform_setter tr v) = None"
  "vbo (transform_setter tr v) = vbo v"
  "data (transform_setter tr v) = data v"
  by (simp_all add: transform_setter_def)

lemma paint_unbuilt_rebuilds:
  assumes "program u = None" "paint u = (r, v', cs)" "cs \<noteq> []"
  shows "NewCompositeProgram vertex_shader fragment_shader \<in> set cs \<and> program v' \<noteq> None"
proof -
  from paint_shape [OF assms(2)] assms(1,3) consider
    e where "build_program u = (Raised e, v', cs)" |
    cs0 p where "build_program u = (Returned, v', cs0)"
      "cs = cs0 @ [GlLineWidth (opts_width u), ProgramDraw p ''LINE_STRIP'']"
    by auto
  then show ?thesis
  proof cases
    case 1
    from build_program_calls [OF 1] assms(3) show ?thesis by auto
  next
    case 2
    from build_program_calls [OF 2(1)] 2(2) show ?thesis by auto
  qed
qed

lemma paint_unbuilt_drawable:
  assumes "vbo_current u" "program u = None" "drawable u"
  shows "\<exists>v' pre p. paint u =
      (Returned, v',
       pre @ [NewCompositeProgram vertex_shader fragment_shader,
              GlLineWidth (opts_width u), ProgramDraw p ''LINE_STRIP'']) \<and>
      program v' = Some p"
proof -
  from assms(3) obtain pos where
    pos: "opts_pos u = Some pos" "has_vertices pos" "color_fits pos (opts_color u)"
    by (auto simp: drawable_pos)
  from paint_result [OF assms(1,2) pos] obtain d v1 p where
    "paint u =
       (Returned, v1\<lparr>program := Some p\<rparr>,
        (if vbo u = None then [NewVertexBuffer d] else []) @
        [NewCompositeProgram vertex_shader fragment_shader,
         GlLineWidth (opts_width u), ProgramDraw p ''LINE_STRIP''])"
    by blast
  then have "paint u =
       (Returned, v1\<lparr>program := Some p\<rparr>,
        (if vbo u = None then [NewVertexBuffer d] else []) @
        [NewCompositeProgram vertex_shader fragment_shader,
         GlLineWidth (opts_width u), ProgramDraw p ''LINE_STRIP'']) \<and>
      program (v1\<lparr>program := Some p\<rparr>) = Some p"
    by simp
  then show ?thesis by blast
qed

subsection \<open>The hooks of the master templates\<close>

lemma prototype_simps:
  "prototype ''vec4 local_position(void);'' = (''vec4'', ''local_position'', ''void'')"
  "prototype ''vec4 map_local_to_nd(vec4);'' = (''vec4'', ''map_local_to_nd'', ''vec4'')"
  "prototype ''void post_hook();'' = (''void'', ''post_hook'', '''')"
  "prototype ''vec4 frag_color();'' = (''vec4'', ''frag_color'', '''')"
  by (simp_all add: prototype_def Let_def)

lemma declared_hooks_vertex:
  "declared_hooks vertex_shader =
     [(''vec4'', ''local_position'', ''void''), (''vec4'', ''map_local_to_nd'', ''vec4''),
      (''void'', ''post_hook'', '''')]"
  by (simp add: declared_hooks_def vertex_shader_def is_prototype_def prototype_simps)

lemma declared_hooks_fragment:
  "declared_hooks fragment_shader = [(''vec4'', ''frag_color'', '''')]"
  by (simp add: declared_hooks_def fragment_shader_def is_prototype_def prototype_simps)


lemma build_program_hooks:
  assumes "build_program v = (Returned, v', cs)"
  shows "\<exists>p. program v' = Some p \<and> vmain p = vertex_shader \<and> fmain p = fragment_shader \<and>
         map fst (hooks p) = [''local_position'', ''map_local_to_nd'', ''frag_color''] \<and>
         map_of (hooks p) ''post_hook'' = None"
proof -
  from build_program_calls [OF assms] obtain p where
    p: "program v' = Some p" "vmain p = vertex_shader" "fmain p = fragment_shader"
       "map fst (hooks p) = [''local_position'', ''map_local_to_nd'', ''frag_color'']"
    by auto
  have "''post_hook'' \<notin> set (map fst (hooks p))" unfolding p(4) by simp
  then have n: "map_of (hooks p) ''post_hook'' = None" by (simp add: map_of_eq_None_iff)
  show ?thesis
    by (rule exI [of _ p]) (intro conjI p n)
qed

lemma reachable_painted_line: "reachable painted_line"
  unfolding painted_line_def by (rule reachable.painted) (rule reachable.init)

lemma painted_line_vbo: "vbo painted_line \<noteq> None"
  by (simp add: painted_line_def run_defs two_points_def)

subsection \<open>The staged record, written out\<close>

lemma build_vbo_staged:
  assumes "opts_pos v = Some pos" "shape pos \<noteq> []" "color_fits pos (opts_color v)"
  shows "build_vbo v =
     (Returned,
      v\<lparr>data := Some (staged_record pos (opts_color v)),
        vbo := Some (VertexBuffer (staged_record pos (opts_color v)))\<rparr>,
      [NewVertexBuffer (staged_record pos (opts_color v))])"
proof (cases "color_is_array (opts_color v)")
  case False
  then have "staged_record pos (opts_color v) =
      \<lparr>rshape = butlast (shape pos), dtype_fields = [(''pos'', last (shape pos))],
       columns = [(''pos'', pos)]\<rparr>"
    by (cases "opts_color v") (simp_all add: staged_record_def)
  then show ?thesis by (simp add: build_vbo_uniform [OF assms(1,2) False] Let_def)
next
  case True
  then obtain c where c: "opts_color v = ColorArray c" "1 < ndim c"
    by (cases "opts_color v") auto
  with assms(3) show ?thesis
    by (simp add: build_vbo_array [OF assms(1,2) c] Let_def staged_record_def)
qed

lemma vbo_current_record:
  assumes "vbo_current v" "vbo v = Some b" "opts_pos v = Some pos"
  shows "data v = Some (staged_record pos (opts_color v)) \<and>
     b = VertexBuffer (staged_record pos (opts_color v))"
proof -
  from vbo_current_staged [OF assms(1,2)] assms(3)
  have ok: "shape pos \<noteq> []" "color_fits pos (opts_color v)" by auto
  from assms(1,2) have "fst (snd (build_vbo v)) = v" by (simp add: vbo_current_def)
  with build_vbo_staged [OF assms(3) ok]
  have e: "v\<lparr>data := Some (staged_record pos (opts_color v)),
        vbo := Some (VertexBuffer (staged_record pos (opts_color v)))\<rparr> = v"
    by simp
  have "data (v\<lparr>data := Some (staged_record pos (opts_color v)),
        vbo := Some (VertexBuffer (staged_record pos (opts_color v)))\<rparr>) =
      Some (staged_record pos (opts_color v))"
    "vbo (v\<lparr>data := Some (staged_record pos (opts_color v)),
        vbo := Some (VertexBuffer (staged_record pos (opts_color v)))\<rparr>) =
      Some (VertexBuffer (staged_record pos (opts_color v)))"
    by simp_all
  then show ?thesis unfolding e using assms(2) by simp
qed

lemma build_program_record:
  assumes "vbo_current v" "opts_pos v = Some pos" "build_program v = (Returned, v', cs)"
  shows "data v' = Some (staged_record pos (opts_color v)) \<and>
     vbo v' = Some (VertexBuffer (staged_record pos (opts_color v)))"
proof -
  from build_program_Returned_pos [OF assms]
  have ok: "shape pos \<noteq> []" "color_fits pos (opts_color v)" by simp_all
  from build_program_current [OF assms(1,3)] have cur: "vbo_current v'" .
  from build_program_opts [OF assms(3)]
  have o: "opts_pos v' = Some pos" "opts_color v' = opts_color v" using assms(2) by simp_all
  from build_program_result [OF assms(1,2) ok] assms(3) obtain d v1 p where
    "v1 = v\<lparr>data := Some d, vbo := Some (VertexBuffer d)\<rparr>" "v' = v1\<lparr>program := Some p\<rparr>"
    by auto
  then have "vbo v' = Some (VertexBuffer d)" by simp
  from vbo_current_record [OF cur this o(1)] this show ?thesis by (simp add: o(2))
qed

lemma build_program_vbo_kept:
  "vbo v = Some b \<Longrightarrow> build_program v = (r, v1, cs) \<Longrightarrow> vbo v1 = Some b"
  by (auto simp: build_program_def Let_def split: sum.splits)

text \<open>In a reachable state a program is cached only with a vertex buffer.\<close>

lemma build_program_cached_buffer:
  assumes "vbo_current v" "build_program v = (r, v1, cs)" "program v = None"
    "program v1 \<noteq> None"
  shows "vbo v1 \<noteq> None"
proof (cases "vbo v")
  case (Some b)
  from build_program_vbo_kept [OF Some assms(2)] show ?thesis by simp
next
  case None
  obtain r0 v0 cs0 where s: "build_vbo v = (r0, v0, cs0)" by (cases "build_vbo v") auto
  show ?thesis
  proof (cases r0)
    case (Raised e)
    from build_program_vbo_raised [OF None] s Raised assms(2) have "v1 = v0" by simp
    with build_vbo_opts [OF s] assms(3,4) show ?thesis by simp
  next
    case Returned
    with s have b: "build_vbo v = (Returned, v0, cs0)" by simp
    from build_vbo_Returned [OF b] obtain b0 where b0: "vbo v0 = Some b0" by auto
    from build_program_unstaged [OF None b] assms(2)
    obtain cs2 where "build_program v0 = (r, v1, cs2)"
      by (cases "build_program v0") auto
    from build_program_vbo_kept [OF b0 this] show ?thesis by simp
  qed
qed

subsection \<open>When a reachable visual paints\<close>

lemma paint_cached_buffer:
  assumes "vbo_current v" "program v \<noteq> None \<longrightarrow> vbo v \<noteq> None" "paint v = (r, v1, cs)"
  shows "program v1 \<noteq> None \<longrightarrow> vbo v1 \<noteq> None"
proof -
  from paint_shape [OF assms(3)] consider
    "v1 = v" |
    r0 cs0 where "program v = None" "build_program v = (r0, v1, cs0)"
    by auto
  then show ?thesis
  proof cases
    case 1
    with assms(2) show ?thesis by simp
  next
    case 2
    show ?thesis using build_program_cached_buffer [OF assms(1) 2(2,1)] by blast
  qed
qed

lemma reachable_cached_buffer: "reachable v \<Longrightarrow> program v \<noteq> None \<longrightarrow> vbo v \<noteq> None"
proof (induction rule: reachable.induct)
  case (init pos color width)
  show ?case by (simp add: LineVisual_fields)
next
  case (data v pos color width)
  show ?case by (simp add: set_data_caches)
next
  case (transform v tr)
  show ?case by (simp add: transform_setter_fields)
next
  case (painted v)
  from paint_cached_buffer [OF reachable_current [OF painted.hyps] painted.IH,
      of "fst (paint v)" "fst (snd (paint v))" "snd (snd (paint v))"]
  show ?case by simp
qed

text \<open>With vertices, a reachable visual paints exactly when its colours fit.\<close>

lemma paint_returns_iff:
  assumes "reachable v" "opts_pos v = Some pos" "has_vertices pos"
  shows "fst (paint v) = Returned \<longleftrightarrow> color_fits pos (opts_color v)"
proof
  assume "color_fits pos (opts_color v)"
  with assms(2,3) have "drawable v" by (simp add: drawable_pos)
  from paint_drawable [OF reachable_current [OF assms(1)] this] show "fst (paint v) = Returned"
    by auto
next
  assume r: "fst (paint v) = Returned"
  have cur: "vbo_current v" using assms(1) by (rule reachable_current)
  show "color_fits pos (opts_color v)"
  proof (cases "program v")
    case (Some p)
    with reachable_cached_buffer [OF assms(1)] obtain b where "vbo v = Some b" by auto
    from vbo_current_staged [OF cur this] assms(2) show ?thesis by auto
  next
    case None
    obtain v1 cs where p: "paint v = (Returned, v1, cs)" using r by (cases "paint v") auto
    from assms(3) have "py_len pos \<noteq> Inr 0" by (auto simp: has_vertices_len)
    with paint_shape [OF p] assms(2) None obtain cs0 where
      "build_program v = (Returned, v1, cs0)" by auto
    from build_program_Returned_pos [OF cur assms(2) this] show ?thesis by simp
  qed
qed

lemma paint_misfit:
  assumes "reachable v" "opts_pos v = Some pos" "has_vertices pos"
    "\<not> color_fits pos (opts_color v)"
  shows "\<exists>w. paint v = (Raised ValueError, w, []) \<and> program w = None \<and> vbo w = None"
proof -
  have cur: "vbo_current v" using assms(1) by (rule reachable_current)
  have nb: "vbo v = None"
  proof (cases "vbo v")
    case (Some b)
    from vbo_current_staged [OF cur Some] assms(2,4) show ?thesis by auto
  qed simp
  with reachable_cached_buffer [OF assms(1)] have np: "program v = None" by auto
  from assms(4) obtain c where c: "opts_color v = ColorArray c" "1 < ndim c"
    "\<not> broadcastable (shape c) (butlast (shape pos) @ [last (shape c)])"
    by (cases "opts_color v") (auto split: if_splits)
  from build_vbo_array [OF assms(2) has_vertices_shape [OF assms(3)] c(1,2)] c(3)
  obtain d1 where b: "build_vbo v = (Raised ValueError, v\<lparr>data := Some d1\<rparr>, [])"
    by (simp add: Let_def)
  from build_program_vbo_raised [OF nb b]
  have "build_program v = (Raised ValueError, v\<lparr>data := Some d1\<rparr>, [])" .
  with paint_unbuilt [OF assms(2,3) np] nb np show ?thesis by simp
qed

lemma staged_record_pos:
  "rshape (staged_record pos color) = butlast (shape pos)"
  "map_of (dtype_fields (staged_record pos color)) ''pos'' = Some (last (shape pos))"
  "map_of (columns (staged_record pos color)) ''pos'' = Some pos"
  by (cases color; simp add: staged_record_def)+

lemma staged_record_array:
  "1 < ndim c \<Longrightarrow>
   dtype_fields (staged_record pos (ColorArray c)) =
     [(''pos'', last (shape pos)), (''color'', last (shape c))] \<and>
   columns (staged_record pos (ColorArray c)) = [(''pos'', pos), (''color'', c)]"
  by (simp add: staged_record_def)

lemma staged_record_uniform:
  "\<not> color_is_array color \<Longrightarrow>
   dtype_fields (staged_record pos color) = [(''pos'', last (shape pos))] \<and>
   columns (staged_record pos color) = [(''pos'', pos)]"
  by (cases color) (simp_all add: staged_record_def)

lemma build_program_returns_iff:
  assumes "reachable v" "opts_pos v = Some pos"
  shows "(fst (build_program v) = Returned) = (shape pos \<noteq> [] \<and> color_fits pos (opts_color v))"
proof
  assume "fst (build_program v) = Returned"
  then obtain v' cs where "build_program v = (Returned, v', cs)"
    by (cases "build_program v") auto
  from build_program_Returned_pos [OF reachable_current [OF assms(1)] assms(2) this]
  show "shape pos \<noteq> [] \<and> color_fits pos (opts_color v)" .
next
  assume "shape pos \<noteq> [] \<and> color_fits pos (opts_color v)"
  then have ok: "shape pos \<noteq> []" "color_fits pos (opts_color v)" by simp_all
  from build_program_result [OF reachable_current [OF assms(1)] assms(2) ok]
  show "fst (build_program v) = Returned" by auto
qed

lemma misfit_paint:
  "paint (LineVisual (Some two_points) (Some (ColorArray three_colors)) None) =
     (Raised ValueError,
      fst (snd (paint (LineVisual (Some two_points) (Some (ColorArray three_colors)) None))), [])"
  "program (fst (snd (paint
      (LineVisual (Some two_points) (Some (ColorArray three_colors)) None)))) = None"
  by (simp_all add: run_defs two_points_def three_colors_def)

subsection \<open>Partial updates\<close>

text \<open>
  C5. \<^verbatim>\<open>set_data\<close> changes exactly the options it is given: an argument left at
  None keeps the option's earlier value, an argument that is given replaces it. The
  transform is not an argument and is kept.
\<close>

theorem set_data_partial_update:
  "(pos = None \<longrightarrow> opts_pos (set_data pos color width v) = opts_pos v) \<and>
   (\<forall>p. pos = Some p \<longrightarrow> opts_pos (set_data pos color width v) = Some p) \<and>
   (color = None \<longrightarrow> opts_color (set_data pos color width v) = opts_color v) \<and>
   (\<forall>c. color = Some c \<longrightarrow> opts_color (set_data pos color width v) = c) \<and>
   (width = None \<longrightarrow> opts_width (set_data pos color width v) = opts_width v) \<and>
   (\<forall>w. width = Some w \<longrightarrow> opts_width (set_data pos color width v) = w) \<and>
   opts_transform (set_data pos color width v) = opts_transform v"
  by (simp add: set_data_def split: option.splits)

theorem set_data_partial_update_witness:
  "opts_pos (set_data None (Some (ColorTuple [1, 0, 0, 1])) None
      (LineVisual (Some two_points) None (Some (Scalar 3)))) = Some two_points \<and>
   opts_color (set_data None (Some (ColorTuple [1, 0, 0, 1])) None
      (LineVisual (Some two_points) None (Some (Scalar 3)))) = ColorTuple [1, 0, 0, 1] \<and>
   opts_width (set_data None (Some (ColorTuple [1, 0, 0, 1])) None
      (LineVisual (Some two_points) None (Some (Scalar 3)))) = Scalar 3"
  using set_data_partial_update [of None "Some (ColorTuple [1, 0, 0, 1])" None
      "LineVisual (Some two_points) None (Some (Scalar 3))"]
  by (simp add: LineVisual_def set_data_def)

subsection \<open>Selecting the position function\<close>

text \<open>
  C2. When the program of a visual with positions \<open>pos\<close> is built, the function bound
  to \<^verbatim>\<open>local_position\<close> depends on the last axis of \<open>pos\<close>: with 2 components it is
  an instance of \<^verbatim>\<open>XYInputFunc\<close> that binds \<^verbatim>\<open>xy_pos\<close> as a vec2 attribute and
  \<^verbatim>\<open>z_pos\<close> as a float uniform; with 3 components it is an instance of
  \<^verbatim>\<open>XYZInputFunc\<close> that binds the vec3 attribute \<^verbatim>\<open>xyz_pos\<close> and nothing else. In
  both cases the components of the attribute it reads are as many as the last axis of
  \<open>pos\<close> has, and the attribute is staged from the vertex buffer that holds \<open>pos\<close> in
  its field \<^verbatim>\<open>pos\<close>. The build returns exactly when \<open>pos\<close> has an axis and the
  colours fit it; it is then that this function is what \<^verbatim>\<open>_get_position_function\<close>
  returns.
\<close>

theorem position_function_by_last_axis:
  assumes "reachable v" "opts_pos v = Some pos"
  shows "(fst (build_program v) = Returned) =
       (shape pos \<noteq> [] \<and> color_fits pos (opts_color v)) \<and>
     (build_program v = (Returned, v', cs) \<longrightarrow>
       (\<exists>d b p f. data v' = Some d \<and> b = VertexBuffer d \<and> vbo v' = Some b \<and>
          rshape d = butlast (shape pos) \<and>
          map_of (dtype_fields d) ''pos'' = Some (last (shape pos)) \<and>
          map_of (columns d) ''pos'' = Some pos \<and>
          program v' = Some p \<and> map_of (hooks p) ''local_position'' = Some f \<and>
          get_position_function v' = Inr f \<and>
          (last (shape pos) = 2 \<longrightarrow>
             f = BoundFunction XYInputFunc ''local_position''
                   [(''xy_pos'', ''attribute'', ''vec2'', ''input_xy_pos''),
                    (''z_pos'', ''uniform'', ''float'', ''input_z_pos'')]
                   [(''input_xy_pos'', Column b ''pos''), (''input_z_pos'', Float 0)]) \<and>
          (last (shape pos) = 3 \<longrightarrow>
             f = BoundFunction XYZInputFunc ''local_position''
                   [(''xyz_pos'', ''attribute'', ''vec3'', ''input_xyz_pos'')]
                   [(''input_xyz_pos'', Buffer (Some b))]) \<and>
          (last (shape pos) = 2 \<or> last (shape pos) = 3 \<longrightarrow>
             input_arity f = last (shape pos))))"
proof -
  have cur: "vbo_current v" using assms(1) by (rule reachable_current)
  have sel: "\<exists>d b p f. data v' = Some d \<and> b = VertexBuffer d \<and> vbo v' = Some b \<and>
          rshape d = butlast (shape pos) \<and>
          map_of (dtype_fields d) ''pos'' = Some (last (shape pos)) \<and>
          map_of (columns d) ''pos'' = Some pos \<and>
          program v' = Some p \<and> map_of (hooks p) ''local_position'' = Some f \<and>
          get_position_function v' = Inr f \<and>
          (last (shape pos) = 2 \<longrightarrow>
             f = BoundFunction XYInputFunc ''local_position''
                   [(''xy_pos'', ''attribute'', ''vec2'', ''input_xy_pos''),
                    (''z_pos'', ''uniform'', ''float'', ''input_z_pos'')]
                   [(''input_xy_pos'', Column b ''pos''), (''input_z_pos'', Float 0)]) \<and>
          (last (shape pos) = 3 \<longrightarrow>
             f = BoundFunction XYZInputFunc ''local_position''
                   [(''xyz_pos'', ''attribute'', ''vec3'', ''input_xyz_pos'')]
                   [(''input_xyz_pos'', Buffer (Some b))]) \<and>
          (last (shape pos) = 2 \<or> last (shape pos) = 3 \<longrightarrow>
             input_arity f = last (shape pos))"
    if b: "build_program v = (Returned, v', cs)"
  proof -
    let ?d = "staged_record pos (opts_color v)"
    from build_program_record [OF cur assms(2) b]
    have st: "data v' = Some ?d" "vbo v' = Some (VertexBuffer ?d)" by simp_all
    from build_program_hooks [OF b] obtain p where
      p: "program v' = Some p"
         "map fst (hooks p) = [''local_position'', ''map_local_to_nd'', ''frag_color'']"
      by auto
    from build_program_Returned_pos [OF cur assms(2) b]
    have ok: "shape pos \<noteq> []" "color_fits pos (opts_color v)" by simp_all
    from build_program_result [OF cur assms(2) ok] b obtain pf cf v1 where
      h: "get_position_function v1 = Inr pf"
         "v' = v1\<lparr>program := Some \<lparr>vmain = vertex_shader, fmain = fragment_shader,
                hooks = [(''local_position'', pf),
                         (''map_local_to_nd'', BoundMap (opts_transform v) ''map_local_to_nd''),
                         (''frag_color'', cf)]\<rparr>\<rparr>"
      by auto
    from h have pf: "get_position_function v' = Inr pf"
      by (simp add: get_position_function_program)
    from get_position_function_staged [OF st(1) staged_record_pos(2) st(2)]
    have g: "get_position_function v' =
       Inr (if last (shape pos) = 2
          then BoundFunction XYInputFunc ''local_position''
                 [(''xy_pos'', ''attribute'', ''vec2'', ''input_xy_pos''),
                  (''z_pos'', ''uniform'', ''float'', ''input_z_pos'')]
                 [(''input_xy_pos'', Column (VertexBuffer ?d) ''pos''), (''input_z_pos'', Float 0)]
          else BoundFunction XYZInputFunc ''local_position''
                 [(''xyz_pos'', ''attribute'', ''vec3'', ''input_xyz_pos'')]
                 [(''input_xyz_pos'', Buffer (Some (VertexBuffer ?d)))])" .
    from h(2) p(1) have lp: "map_of (hooks p) ''local_position'' = Some pf" by auto
    have ar: "input_arity pf = (if last (shape pos) = 2 then 2 else 3)"
      using g pf by (auto simp: input_arity_def glsl_components_def)
    show ?thesis
      apply (rule exI [of _ ?d], rule exI [of _ "VertexBuffer ?d"], rule exI [of _ p],
             rule exI [of _ pf])
      using st p(1) lp pf g ar by (auto simp: staged_record_pos)
  qed
  from build_program_returns_iff [OF assms] sel show ?thesis by blast
qed


theorem position_function_by_last_axis_witness:
  "(\<exists>b p. vbo (fst (snd (build_program (LineVisual (Some two_points) None None)))) = Some b \<and>
     program (fst (snd (build_program (LineVisual (Some two_points) None None)))) = Some p \<and>
     map_of (hooks p) ''local_position'' =
       Some (BoundFunction XYInputFunc ''local_position''
              [(''xy_pos'', ''attribute'', ''vec2'', ''input_xy_pos''),
               (''z_pos'', ''uniform'', ''float'', ''input_z_pos'')]
              [(''input_xy_pos'', Column b ''pos''), (''input_z_pos'', Float 0)]) \<and>
     input_arity (BoundFunction XYInputFunc ''local_position''
              [(''xy_pos'', ''attribute'', ''vec2'', ''input_xy_pos''),
               (''z_pos'', ''uniform'', ''float'', ''input_z_pos'')]
              [(''input_xy_pos'', Column b ''pos''), (''input_z_pos'', Float 0)]) = 2) \<and>
   (\<exists>b p. vbo (fst (snd (build_program (LineVisual (Some two_points_3d) None None)))) = Some b \<and>
     program (fst (snd (build_program (LineVisual (Some two_points_3d) None None)))) = Some p \<and>
     map_of (hooks p) ''local_position'' =
       Some (BoundFunction XYZInputFunc ''local_position''
              [(''xyz_pos'', ''attribute'', ''vec3'', ''input_xyz_pos'')]
              [(''input_xyz_pos'', Buffer (Some b))]) \<and>
     input_arity (BoundFunction XYZInputFunc ''local_position''
              [(''xyz_pos'', ''attribute'', ''vec3'', ''input_xyz_pos'')]
              [(''input_xyz_pos'', Buffer (Some b))]) = 3)"
proof -
  let ?v2 = "LineVisual (Some two_points) None None"
  let ?v3 = "LineVisual (Some two_points_3d) None None"
  have f2: "shape two_points \<noteq> [] \<and> color_fits two_points (opts_color ?v2)"
    by (simp add: LineVisual_fields two_points_def)
  have f3: "shape two_points_3d \<noteq> [] \<and> color_fits two_points_3d (opts_color ?v3)"
    by (simp add: LineVisual_fields two_points_3d_def)
  have l2: "last (shape two_points) = 2" by (simp add: two_points_def)
  have l3: "last (shape two_points_3d) = 3" by (simp add: two_points_3d_def)
  note t2 = position_function_by_last_axis [OF reachable.init, of "Some two_points" None None
      two_points "fst (snd (build_program ?v2))" "snd (snd (build_program ?v2))",
      OF LineVisual_fields(1)]
  note t3 = position_function_by_last_axis [OF reachable.init, of "Some two_points_3d" None None
      two_points_3d "fst (snd (build_program ?v3))" "snd (snd (build_program ?v3))",
      OF LineVisual_fields(1)]
  from t2 f2 have r2: "build_program ?v2 =
      (Returned, fst (snd (build_program ?v2)), snd (snd (build_program ?v2)))"
    by (cases "build_program ?v2") simp
  from t3 f3 have r3: "build_program ?v3 =
      (Returned, fst (snd (build_program ?v3)), snd (snd (build_program ?v3)))"
    by (cases "build_program ?v3") simp
  from t2 r2 l2 have "\<exists>b p. vbo (fst (snd (build_program ?v2))) = Some b \<and>
     program (fst (snd (build_program ?v2))) = Some p \<and>
     map_of (hooks p) ''local_position'' =
       Some (BoundFunction XYInputFunc ''local_position''
              [(''xy_pos'', ''attribute'', ''vec2'', ''input_xy_pos''),
               (''z_pos'', ''uniform'', ''float'', ''input_z_pos'')]
              [(''input_xy_pos'', Column b ''pos''), (''input_z_pos'', Float 0)]) \<and>
     input_arity (BoundFunction XYInputFunc ''local_position''
              [(''xy_pos'', ''attribute'', ''vec2'', ''input_xy_pos''),
               (''z_pos'', ''uniform'', ''float'', ''input_z_pos'')]
              [(''input_xy_pos'', Column b ''pos''), (''input_z_pos'', Float 0)]) = 2"
    by auto
  moreover from t3 r3 l3 have "\<exists>b p. vbo (fst (snd (build_program ?v3))) = Some b \<and>
     program (fst (snd (build_program ?v3))) = Some p \<and>
     map_of (hooks p) ''local_position'' =
       Some (BoundFunction XYZInputFunc ''local_position''
              [(''xyz_pos'', ''attribute'', ''vec3'', ''input_xyz_pos'')]
              [(''input_xyz_pos'', Buffer (Some b))]) \<and>
     input_arity (BoundFunction XYZInputFunc ''local_position''
              [(''xyz_pos'', ''attribute'', ''vec3'', ''input_xyz_pos'')]
              [(''input_xyz_pos'', Buffer (Some b))]) = 3"
    by auto
  ultimately show ?thesis by (rule conjI)
qed

subsection \<open>Selecting the colour function\<close>

text \<open>
  C3, as amended. For a visual whose positions have at least one axis and whose colour
  is an array of more than one dimension that numpy can assign to the colour field of
  the records staged for the positions (as N colours are for N positions), building the
  program returns; the staged record has one record per position, the field
  \<^verbatim>\<open>pos\<close> filled from the positions and the field \<^verbatim>\<open>color\<close> filled from the
  colour array; and the function bound to \<^verbatim>\<open>frag_color\<close> is an instance of
  \<^verbatim>\<open>RGBAAttributeFunc\<close> whose input is the attribute staged from the column
  \<^verbatim>\<open>color\<close> of the vertex buffer made of that record. For any other colour the
  record has the field \<^verbatim>\<open>pos\<close> alone and the function is an instance of
  \<^verbatim>\<open>RGBAUniformFunc\<close> staged with the one colour value: the colour field is staged
  exactly for a colour array of more than one dimension.
\<close>

theorem per_vertex_color_selects_attribute:
  assumes "reachable v" "opts_pos v = Some pos" "shape pos \<noteq> []"
    "color_fits pos (opts_color v)"
  shows "\<exists>v' cs d p f. build_program v = (Returned, v', cs) \<and>
     data v' = Some d \<and> vbo v' = Some (VertexBuffer d) \<and> program v' = Some p \<and>
     map_of (hooks p) ''frag_color'' = Some f \<and> get_color_func v' = Inr f \<and>
     rshape d = butlast (shape pos) \<and>
     (''color'' \<in> set (map fst (dtype_fields d))) = color_is_array (opts_color v) \<and>
     (\<forall>c. opts_color v = ColorArray c \<and> 1 < ndim c \<longrightarrow>
        dtype_fields d = [(''pos'', last (shape pos)), (''color'', last (shape c))] \<and>
        columns d = [(''pos'', pos), (''color'', c)] \<and>
        f = BoundFunction RGBAAttributeFunc ''frag_color''
              [(''input'', ''attribute'', ''vec4'', ''input_color'')]
              [(''input_color'', Column (VertexBuffer d) ''color'')]) \<and>
     (\<not> color_is_array (opts_color v) \<longrightarrow>
        dtype_fields d = [(''pos'', last (shape pos))] \<and>
        columns d = [(''pos'', pos)] \<and>
        f = BoundFunction RGBAUniformFunc ''frag_color''
              [(''rgba'', ''uniform'', ''vec4'', ''input_color'')]
              [(''input_color'', Array (np_array (opts_color v)))])"
proof -
  let ?d = "staged_record pos (opts_color v)"
  have cur: "vbo_current v" using assms(1) by (rule reachable_current)
  from build_program_result [OF cur assms(2,3,4)] obtain d0 pf cf v1 where
    r: "v1 = v\<lparr>data := Some d0, vbo := Some (VertexBuffer d0)\<rparr>"
       "get_color_func v1 = Inr cf"
       "build_program v =
         (Returned,
          v1\<lparr>program := Some \<lparr>vmain = vertex_shader, fmain = fragment_shader,
                hooks = [(''local_position'', pf),
                         (''map_local_to_nd'', BoundMap (opts_transform v) ''map_local_to_nd''),
                         (''frag_color'', cf)]\<rparr>\<rparr>,
          (if vbo v = None then [NewVertexBuffer d0] else []) @
          [NewCompositeProgram vertex_shader fragment_shader])"
    by blast
  let ?p = "\<lparr>vmain = vertex_shader, fmain = fragment_shader,
                hooks = [(''local_position'', pf),
                         (''map_local_to_nd'', BoundMap (opts_transform v) ''map_local_to_nd''),
                         (''frag_color'', cf)]\<rparr>"
  let ?v' = "v1\<lparr>program := Some ?p\<rparr>"
  from build_program_record [OF cur assms(2) r(3)]
  have st: "data ?v' = Some ?d" "vbo ?v' = Some (VertexBuffer ?d)" by simp_all
  have oc: "opts_color v1 = opts_color v" using r(1) by simp
  have gc: "get_color_func ?v' = Inr cf" using r(2) by (simp add: get_color_func_program)
  have names: "(''color'' \<in> set (map fst (dtype_fields ?d))) = color_is_array (opts_color v)"
    by (cases "opts_color v") (simp_all add: staged_record_def)
  have g: "get_color_func ?v' =
       Inr (if color_is_array (opts_color v)
          then BoundFunction RGBAAttributeFunc ''frag_color''
                 [(''input'', ''attribute'', ''vec4'', ''input_color'')]
                 [(''input_color'', Column (VertexBuffer ?d) ''color'')]
          else BoundFunction RGBAUniformFunc ''frag_color''
                 [(''rgba'', ''uniform'', ''vec4'', ''input_color'')]
                 [(''input_color'', Array (np_array (opts_color v)))])"
    using get_color_func_staged [OF st] names oc by simp
  have cf: "cf = (if color_is_array (opts_color v)
          then BoundFunction RGBAAttributeFunc ''frag_color''
                 [(''input'', ''attribute'', ''vec4'', ''input_color'')]
                 [(''input_color'', Column (VertexBuffer ?d) ''color'')]
          else BoundFunction RGBAUniformFunc ''frag_color''
                 [(''rgba'', ''uniform'', ''vec4'', ''input_color'')]
                 [(''input_color'', Array (np_array (opts_color v)))])"
    using g unfolding gc by (rule sum.inject [THEN iffD1, symmetric, THEN sym])
  have fc: "map_of (hooks ?p) ''frag_color'' = Some cf" by simp
  have arr: "dtype_fields ?d = [(''pos'', last (shape pos)), (''color'', last (shape c))] \<and>
        columns ?d = [(''pos'', pos), (''color'', c)] \<and>
        cf = BoundFunction RGBAAttributeFunc ''frag_color''
              [(''input'', ''attribute'', ''vec4'', ''input_color'')]
              [(''input_color'', Column (VertexBuffer ?d) ''color'')]"
    if "opts_color v = ColorArray c \<and> 1 < ndim c" for c
    using that cf staged_record_array [of c pos] by simp
  have uni: "dtype_fields ?d = [(''pos'', last (shape pos))] \<and>
        columns ?d = [(''pos'', pos)] \<and>
        cf = BoundFunction RGBAUniformFunc ''frag_color''
              [(''rgba'', ''uniform'', ''vec4'', ''input_color'')]
              [(''input_color'', Array (np_array (opts_color v)))]"
    if "\<not> color_is_array (opts_color v)"
    using that cf staged_record_uniform [of "opts_color v" pos] by simp
  have pr: "program ?v' = Some ?p" by simp
  show ?thesis
    apply (rule exI [of _ ?v'], rule exI, rule exI [of _ ?d], rule exI [of _ ?p],
           rule exI [of _ cf])
    apply (intro conjI allI impI)
             apply (rule r(3))
            apply (rule st(1))
           apply (rule st(2))
          apply (rule pr)
         apply (rule fc)
        apply (rule gc)
       apply (rule staged_record_pos(1))
      apply (rule names)
         apply ((drule arr | drule uni), elim conjE, assumption)+
    done
qed

theorem per_vertex_color_selects_attribute_witness:
  "\<exists>v' cs d p.
     build_program (LineVisual (Some two_points) (Some (ColorArray vertex_colors)) None) =
       (Returned, v', cs) \<and>
     data v' = Some d \<and> vbo v' = Some (VertexBuffer d) \<and> program v' = Some p \<and>
     rshape d = [2] \<and> dtype_fields d = [(''pos'', 2), (''color'', 4)] \<and>
     columns d = [(''pos'', two_points), (''color'', vertex_colors)] \<and>
     map_of (hooks p) ''frag_color'' =
       Some (BoundFunction RGBAAttributeFunc ''frag_color''
              [(''input'', ''attribute'', ''vec4'', ''input_color'')]
              [(''input_color'', Column (VertexBuffer d) ''color'')])"
proof -
  let ?v = "LineVisual (Some two_points) (Some (ColorArray vertex_colors)) None"
  have r: "reachable ?v" by (rule reachable.init)
  have p: "opts_pos ?v = Some two_points" by (simp add: LineVisual_fields)
  have s: "shape two_points \<noteq> []" by (simp add: two_points_def)
  have c: "opts_color ?v = ColorArray vertex_colors" by (simp add: LineVisual_fields)
  have f: "color_fits two_points (opts_color ?v)"
    unfolding c by (simp add: two_points_def vertex_colors_def broadcastable_def ndim_def)
  have n: "1 < ndim vertex_colors" by (simp add: vertex_colors_def ndim_def)
  have sh: "butlast (shape two_points) = [2]" "last (shape two_points) = 2"
    "last (shape vertex_colors) = 4"
    by (simp_all add: two_points_def vertex_colors_def)
  from per_vertex_color_selects_attribute [OF r p s f] c n sh show ?thesis by auto
qed

text \<open>
  Three colours for two positions: the colour is a per-vertex array, and building the
  program raises the ValueError of the assignment to the colour field. No colour
  function is selected, and there is neither a vertex buffer nor a program.
\<close>

theorem per_vertex_color_misfit_counterexample:
  "color_is_array (opts_color (LineVisual (Some two_points) (Some (ColorArray three_colors)) None)) \<and>
   fst (build_program (LineVisual (Some two_points) (Some (ColorArray three_colors)) None)) =
     Raised ValueError \<and>
   program (fst (snd (build_program
      (LineVisual (Some two_points) (Some (ColorArray three_colors)) None)))) = None \<and>
   vbo (fst (snd (build_program
      (LineVisual (Some two_points) (Some (ColorArray three_colors)) None)))) = None"
  by (simp add: run_defs two_points_def three_colors_def)

subsection \<open>Painting two-dimensional positions with a uniform colour\<close>

text \<open>
  C4, as amended. For a visual constructed with n two-dimensional positions, n at least
  1, a uniform colour (none given, a tuple, or an array of at most one dimension) and
  any width, \<^verbatim>\<open>paint\<close> returns and (a) binds to \<^verbatim>\<open>local_position\<close> the instance of
  \<^verbatim>\<open>XYInputFunc\<close> staged with the position column and \<^verbatim>\<open>input_z_pos = 0.0\<close>, (b)
  binds to \<^verbatim>\<open>frag_color\<close> the instance of \<^verbatim>\<open>RGBAUniformFunc\<close> staged with the
  given colour, or with (1, 1, 1, 1) when none is given, and (c) makes exactly one draw
  call, with \<^verbatim>\<open>LINE_STRIP\<close>.
\<close>

theorem paint_2d_uniform:
  assumes "shape pos = [n, 2]" "0 < n"
    "\<not> color_is_array (opts_color (LineVisual (Some pos) color width))"
  shows "\<exists>v' cs b p.
     paint (LineVisual (Some pos) color width) = (Returned, v', cs) \<and>
     vbo v' = Some b \<and> program v' = Some p \<and>
     map_of (hooks p) ''local_position'' =
       Some (BoundFunction XYInputFunc ''local_position''
              [(''xy_pos'', ''attribute'', ''vec2'', ''input_xy_pos''),
               (''z_pos'', ''uniform'', ''float'', ''input_z_pos'')]
              [(''input_xy_pos'', Column b ''pos''), (''input_z_pos'', Float 0)]) \<and>
     map_of (hooks p) ''frag_color'' =
       Some (BoundFunction RGBAUniformFunc ''frag_color''
              [(''rgba'', ''uniform'', ''vec4'', ''input_color'')]
              [(''input_color'',
                Array (np_array (case color of None \<Rightarrow> ColorTuple [1, 1, 1, 1] | Some c \<Rightarrow> c)))]) \<and>
     filter is_draw cs = [ProgramDraw p ''LINE_STRIP'']"
proof -
  let ?v = "LineVisual (Some pos) color width"
  have cur: "vbo_current ?v" by (rule reachable_current) (rule reachable.init)
  have hv: "has_vertices pos" using assms(1,2) by (simp add: has_vertices_def)
  have l: "last (shape pos) = 2" using assms(1) by simp
  from paint_result [OF cur LineVisual_fields(5) LineVisual_fields(1) hv
      color_fits_uniform [OF assms(3)]]
  obtain d pf cf v1 p where
    r: "v1 = ?v\<lparr>data := Some d, vbo := Some (VertexBuffer d)\<rparr>"
       "map_of (dtype_fields d) ''pos'' = Some (last (shape pos))"
       "(''color'' \<in> set (map fst (dtype_fields d))) = color_is_array (opts_color ?v)"
       "get_position_function v1 = Inr pf" "get_color_func v1 = Inr cf"
       "p = \<lparr>vmain = vertex_shader, fmain = fragment_shader,
             hooks = [(''local_position'', pf),
                      (''map_local_to_nd'', BoundMap (opts_transform ?v) ''map_local_to_nd''),
                      (''frag_color'', cf)]\<rparr>"
       "paint ?v =
         (Returned, v1\<lparr>program := Some p\<rparr>,
          (if vbo ?v = None then [NewVertexBuffer d] else []) @
          [NewCompositeProgram vertex_shader fragment_shader,
           GlLineWidth (opts_width ?v), ProgramDraw p ''LINE_STRIP''])"
    by blast
  have v1: "data v1 = Some d" "vbo v1 = Some (VertexBuffer d)" "opts_color v1 = opts_color ?v"
    using r(1) by simp_all
  from get_position_function_staged [OF v1(1) r(2) v1(2)] r(4) l
  have pf: "pf = BoundFunction XYInputFunc ''local_position''
                 [(''xy_pos'', ''attribute'', ''vec2'', ''input_xy_pos''),
                  (''z_pos'', ''uniform'', ''float'', ''input_z_pos'')]
                 [(''input_xy_pos'', Column (VertexBuffer d) ''pos''), (''input_z_pos'', Float 0)]"
    by simp
  from get_color_func_staged [OF v1(1,2)] r(3,5) v1(3) assms(3)
  have cf: "cf = BoundFunction RGBAUniformFunc ''frag_color''
                 [(''rgba'', ''uniform'', ''vec4'', ''input_color'')]
                 [(''input_color'', Array (np_array (opts_color ?v)))]"
    by simp
  have hooks: "map_of (hooks p) ''local_position'' = Some pf"
    "map_of (hooks p) ''frag_color'' = Some cf"
    by (simp_all add: r(6))
  have draws: "filter is_draw
      ((if vbo ?v = None then [NewVertexBuffer d] else []) @
          [NewCompositeProgram vertex_shader fragment_shader,
           GlLineWidth (opts_width ?v), ProgramDraw p ''LINE_STRIP'']) =
      [ProgramDraw p ''LINE_STRIP'']"
    by simp
  show ?thesis
    unfolding r(7)
    using v1(2) hooks draws pf cf by (simp add: LineVisual_fields(2))
qed

theorem paint_2d_uniform_witness:
  "\<exists>v' cs b p.
     paint (LineVisual (Some two_points) None (Some (Scalar 1))) = (Returned, v', cs) \<and>
     vbo v' = Some b \<and> program v' = Some p \<and>
     map_of (hooks p) ''local_position'' =
       Some (BoundFunction XYInputFunc ''local_position''
              [(''xy_pos'', ''attribute'', ''vec2'', ''input_xy_pos''),
               (''z_pos'', ''uniform'', ''float'', ''input_z_pos'')]
              [(''input_xy_pos'', Column b ''pos''), (''input_z_pos'', Float 0)]) \<and>
     map_of (hooks p) ''frag_color'' =
       Some (BoundFunction RGBAUniformFunc ''frag_color''
              [(''rgba'', ''uniform'', ''vec4'', ''input_color'')]
              [(''input_color'', Array (np_array (ColorTuple [1, 1, 1, 1])))]) \<and>
     filter is_draw cs = [ProgramDraw p ''LINE_STRIP'']"
proof -
  have s: "shape two_points = [2, 2]" by (simp add: two_points_def)
  have c: "\<not> color_is_array (opts_color (LineVisual (Some two_points) None (Some (Scalar 1))))"
    by (simp add: LineVisual_def set_data_def)
  from paint_2d_uniform [OF s _ c] show ?thesis by simp
qed

text \<open>
  With no vertex at all (an array of shape (0, 2)) \<^verbatim>\<open>paint\<close> returns at its guard:
  no program is built and nothing is drawn.
\<close>

theorem paint_2d_uniform_counterexample:
  "shape no_points = [0, 2] \<and>
   \<not> color_is_array (opts_color (LineVisual (Some no_points) None None)) \<and>
   paint (LineVisual (Some no_points) None None) =
     (Returned, LineVisual (Some no_points) None None, []) \<and>
   program (LineVisual (Some no_points) None None) = None"
  by (simp add: no_points_def paint_def py_len_def LineVisual_def set_data_def)

subsection \<open>Changing the width alone\<close>

text \<open>
  C1, as amended. \<^verbatim>\<open>set_data\<close> with the width alone stores the new width, keeps the
  positions and the colour, and discards the cached vertex buffer and the cached
  program, as every call of \<^verbatim>\<open>set_data\<close> does. When the visual can be drawn, the next
  \<^verbatim>\<open>paint\<close> stages the vertex data and builds the program again, and passes the new
  width to \<^verbatim>\<open>glLineWidth\<close> before the draw.
\<close>

theorem set_data_width_only:
  "program (set_data None None (Some w) v) = None \<and>
   vbo (set_data None None (Some w) v) = None \<and>
   opts_width (set_data None None (Some w) v) = w \<and>
   opts_pos (set_data None None (Some w) v) = opts_pos v \<and>
   opts_color (set_data None None (Some w) v) = opts_color v \<and>
   (drawable v \<longrightarrow>
      (\<exists>v' d p. paint (set_data None None (Some w) v) =
         (Returned, v',
          [NewVertexBuffer d, NewCompositeProgram vertex_shader fragment_shader,
           GlLineWidth w, ProgramDraw p ''LINE_STRIP'']) \<and>
         program v' = Some p))"
proof -
  let ?u = "set_data None None (Some w) v"
  have caches: "vbo ?u = None" "program ?u = None" by (simp_all add: set_data_caches)
  have draws: "\<exists>v' d p. paint ?u =
         (Returned, v',
          [NewVertexBuffer d, NewCompositeProgram vertex_shader fragment_shader,
           GlLineWidth w, ProgramDraw p ''LINE_STRIP'']) \<and>
         program v' = Some p" if "drawable v"
  proof -
    from that obtain pos where
      pos: "opts_pos v = Some pos" "has_vertices pos" "color_fits pos (opts_color v)"
      by (auto simp: drawable_pos)
    have cur: "vbo_current ?u" using caches(1) by (rule vbo_current_init)
    from paint_result [OF cur caches(2), of pos] pos
    obtain d v1 p where
      "paint ?u =
         (Returned, v1\<lparr>program := Some p\<rparr>,
          (if vbo ?u = None then [NewVertexBuffer d] else []) @
          [NewCompositeProgram vertex_shader fragment_shader,
           GlLineWidth (opts_width ?u), ProgramDraw p ''LINE_STRIP''])"
      unfolding set_data_width_opts by blast
    then show ?thesis by (simp add: caches set_data_width_opts)
  qed
  show ?thesis using caches draws by (simp add: set_data_width_opts)
qed

theorem set_data_width_only_witness:
  "program (set_data None None (Some (Scalar 3)) painted_line) = None \<and>
   (\<exists>v' d p. paint (set_data None None (Some (Scalar 3)) painted_line) =
      (Returned, v',
       [NewVertexBuffer d, NewCompositeProgram vertex_shader fragment_shader,
        GlLineWidth (Scalar 3), ProgramDraw p ''LINE_STRIP'']))"
proof -
  have "drawable painted_line"
    by (simp add: painted_line_def run_defs two_points_def drawable_def has_vertices_def)
  with set_data_width_only [of "Scalar 3" painted_line] show ?thesis by blast
qed

text \<open>
  A visual that has been painted has a program; after \<^verbatim>\<open>set_data(width=3)\<close> it has
  none.
\<close>

theorem set_data_width_keeps_program_counterexample:
  "program painted_line \<noteq> None \<and>
   program (set_data None None (Some (Scalar 3)) painted_line) \<noteq> program painted_line"
  using painted_line_program by (auto simp: set_data_caches)

subsection \<open>Painting twice\<close>

text \<open>
  C7. Two calls of \<^verbatim>\<open>paint\<close> in a row, with nothing in between, create a composite
  program at most once. When the first call returns, the second returns too, leaves the
  instance as it is, with the same program, and creates neither a program nor a vertex
  buffer: it makes no call at all, or sets the line width and draws with the program
  that is cached.
\<close>

theorem paint_twice_builds_once:
  assumes "paint v = (r1, v1, cs1)" "paint v1 = (r2, v2, cs2)"
  shows "length (filter is_new_program (cs1 @ cs2)) \<le> 1 \<and>
     (r1 = Returned \<longrightarrow>
        r2 = Returned \<and> v2 = v1 \<and> program v2 = program v1 \<and>
        filter is_new_program cs2 = [] \<and> filter is_new_buffer cs2 = [] \<and>
        (cs2 = [] \<or>
         (\<exists>p. program v1 = Some p \<and>
            cs2 = [GlLineWidth (opts_width v1), ProgramDraw p ''LINE_STRIP''])))"
proof -
  have once: "length (filter is_new_program (cs1 @ cs2)) \<le> 1"
  proof (cases "filter is_new_program cs1 = []")
    case True
    with paint_new_program [OF assms(2)] show ?thesis by auto
  next
    case False
    with paint_new_program [OF assms(1)] obtain p where
      "filter is_new_program cs1 = [NewCompositeProgram vertex_shader fragment_shader]"
      "program v1 = Some p"
      by auto
    with paint_cached [OF _ assms(2)] show ?thesis by simp
  qed
  have again: "r2 = Returned \<and> v2 = v1 \<and> program v2 = program v1 \<and>
        filter is_new_program cs2 = [] \<and> filter is_new_buffer cs2 = [] \<and>
        (cs2 = [] \<or>
         (\<exists>p. program v1 = Some p \<and>
            cs2 = [GlLineWidth (opts_width v1), ProgramDraw p ''LINE_STRIP'']))"
    if "r1 = Returned"
    using paint_Returned_again [of v v1 cs1] assms that by auto
  from once again show ?thesis by blast
qed

theorem paint_twice_builds_once_witness:
  "length (filter is_new_program
      (snd (snd (paint (LineVisual (Some two_points) None None))) @
       snd (snd (paint painted_line)))) = 1 \<and>
   fst (paint painted_line) = Returned \<and>
   fst (snd (paint painted_line)) = painted_line \<and>
   filter is_new_program (snd (snd (paint painted_line))) = []"
proof -
  have 2: "paint painted_line =
      (fst (paint painted_line), fst (snd (paint painted_line)), snd (snd (paint painted_line)))"
    by simp
  from paint_twice_builds_once [OF painted_line_paint(1) 2] painted_line_paint(2)
  show ?thesis by simp
qed

subsection \<open>When paint draws\<close>

text \<open>
  C6, as amended. \<^verbatim>\<open>paint\<close> is a no-op when the positions are not set or have length
  0: it returns, leaves the instance as it is and makes no call. With positions of at
  least one vertex, a \<^verbatim>\<open>paint\<close> that returns leaves a program in place and has ended
  with \<^verbatim>\<open>glLineWidth\<close> of the current width followed by the draw of that program. In
  a reachable state with such positions \<^verbatim>\<open>paint\<close> returns exactly when the colours
  fit the positions (a uniform colour always does); when they do not, it raises the
  ValueError of \<^verbatim>\<open>_build_vbo\<close>, makes no call and leaves neither a vertex buffer nor
  a program.
\<close>

theorem paint_noop_or_draw:
  "(opts_pos v = None \<or> (\<exists>pos. opts_pos v = Some pos \<and> py_len pos = Inr 0) \<longrightarrow>
      paint v = (Returned, v, [])) \<and>
   (opts_pos v = Some pos \<and> has_vertices pos \<and> paint v = (Returned, v', cs) \<longrightarrow>
      (\<exists>p pre. program v' = Some p \<and>
         cs = pre @ [GlLineWidth (opts_width v), ProgramDraw p ''LINE_STRIP''])) \<and>
   (reachable v \<and> drawable v \<longrightarrow> fst (paint v) = Returned) \<and>
   (reachable v \<and> opts_pos v = Some pos \<and> has_vertices pos \<longrightarrow>
      (fst (paint v) = Returned) = color_fits pos (opts_color v)) \<and>
   (reachable v \<and> opts_pos v = Some pos \<and> has_vertices pos \<and>
    \<not> color_fits pos (opts_color v) \<longrightarrow>
      (\<exists>w. paint v = (Raised ValueError, w, []) \<and> program w = None \<and> vbo w = None))"
proof -
  have a: "paint v = (Returned, v, [])"
    if "opts_pos v = None \<or> (\<exists>pos. opts_pos v = Some pos \<and> py_len pos = Inr 0)"
    using that by (auto simp: paint_no_pos paint_empty)
  have b: "\<exists>p pre. program v' = Some p \<and>
         cs = pre @ [GlLineWidth (opts_width v), ProgramDraw p ''LINE_STRIP'']"
    if "opts_pos v = Some pos \<and> has_vertices pos \<and> paint v = (Returned, v', cs)"
  proof -
    from that have p: "paint v = (Returned, v', cs)" and hv: "has_vertices pos"
      and pos: "opts_pos v = Some pos" by simp_all
    from hv have "py_len pos \<noteq> Inr 0" by (auto simp: has_vertices_len)
    with paint_shape [OF p] pos show ?thesis by auto
  qed
  have c: "fst (paint v) = Returned" if "reachable v \<and> drawable v"
    using paint_drawable [of v] reachable_current [of v] that by auto
  have d: "(fst (paint v) = Returned) = color_fits pos (opts_color v)"
    if "reachable v \<and> opts_pos v = Some pos \<and> has_vertices pos"
    using paint_returns_iff [of v pos] that by simp
  have e: "\<exists>w. paint v = (Raised ValueError, w, []) \<and> program w = None \<and> vbo w = None"
    if "reachable v \<and> opts_pos v = Some pos \<and> has_vertices pos \<and>
        \<not> color_fits pos (opts_color v)"
    using paint_misfit [of v pos] that by simp
  from a b c d e show ?thesis by (intro conjI impI)
qed

theorem paint_noop_or_draw_witness:
  "paint (LineVisual None None None) = (Returned, LineVisual None None None, []) \<and>
   (\<exists>p pre. program painted_line = Some p \<and>
      snd (snd (paint (LineVisual (Some two_points) None None))) =
        pre @ [GlLineWidth (Scalar 1), ProgramDraw p ''LINE_STRIP'']) \<and>
   fst (paint (LineVisual (Some two_points) None None)) = Returned \<and>
   (\<exists>w. paint (LineVisual (Some two_points) (Some (ColorArray three_colors)) None) =
      (Raised ValueError, w, []) \<and> program w = None)"
proof -
  let ?m = "LineVisual (Some two_points) (Some (ColorArray three_colors)) None"
  have n: "opts_pos (LineVisual None None None) = None" by (simp add: LineVisual_fields)
  have p: "opts_pos (LineVisual (Some two_points) None None) = Some two_points"
    by (simp add: LineVisual_fields)
  have w: "opts_width (LineVisual (Some two_points) None None) = Scalar 1"
    by (simp add: LineVisual_fields)
  have hv: "has_vertices two_points" by (simp add: has_vertices_def two_points_def)
  have d: "drawable (LineVisual (Some two_points) None None)"
    by (simp add: drawable_def LineVisual_fields hv)
  have r: "reachable (LineVisual (Some two_points) None None)" by (rule reachable.init)
  have rm: "reachable ?m" by (rule reachable.init)
  have pm: "opts_pos ?m = Some two_points" by (simp add: LineVisual_fields)
  have nf: "\<not> color_fits two_points (opts_color ?m)"
    by (simp add: LineVisual_fields two_points_def three_colors_def broadcastable_def ndim_def)
  from paint_noop_or_draw [of "LineVisual None None None"] n
  have 1: "paint (LineVisual None None None) = (Returned, LineVisual None None None, [])"
    by simp
  from paint_noop_or_draw [of ?m two_points] rm pm hv nf
  have 3: "\<exists>w. paint ?m = (Raised ValueError, w, []) \<and> program w = None"
    by auto
  from paint_noop_or_draw [of "LineVisual (Some two_points) None None" two_points painted_line
      "snd (snd (paint (LineVisual (Some two_points) None None)))"]
    p hv painted_line_paint(1) d r w
  have 2: "(\<exists>p pre. program painted_line = Some p \<and>
      snd (snd (paint (LineVisual (Some two_points) None None))) =
        pre @ [GlLineWidth (Scalar 1), ProgramDraw p ''LINE_STRIP'']) \<and>
   fst (paint (LineVisual (Some two_points) None None)) = Returned"
    by simp
  from 1 2 3 show ?thesis by (intro conjI) (elim conjE, assumption)+
qed

text \<open>
  Positions that are set but hold no vertex: \<^verbatim>\<open>paint\<close> changes nothing, makes no
  call and builds no program. Two positions with three colours: \<^verbatim>\<open>paint\<close> raises
  ValueError, makes no call and builds no program.
\<close>

theorem paint_empty_positions_counterexample:
  "opts_pos (LineVisual (Some no_points) None None) = Some no_points \<and>
   fst (snd (paint (LineVisual (Some no_points) None None))) =
     LineVisual (Some no_points) None None \<and>
   snd (snd (paint (LineVisual (Some no_points) None None))) = [] \<and>
   program (fst (snd (paint (LineVisual (Some no_points) None None)))) = None \<and>
   has_vertices two_points \<and>
   opts_pos (LineVisual (Some two_points) (Some (ColorArray three_colors)) None) =
     Some two_points \<and>
   fst (paint (LineVisual (Some two_points) (Some (ColorArray three_colors)) None)) =
     Raised ValueError \<and>
   snd (snd (paint (LineVisual (Some two_points) (Some (ColorArray three_colors)) None))) = [] \<and>
   program (fst (snd (paint
      (LineVisual (Some two_points) (Some (ColorArray three_colors)) None)))) = None"
proof -
  have e: "opts_pos (LineVisual (Some no_points) None None) = Some no_points \<and>
   fst (snd (paint (LineVisual (Some no_points) None None))) =
     LineVisual (Some no_points) None None \<and>
   snd (snd (paint (LineVisual (Some no_points) None None))) = [] \<and>
   program (fst (snd (paint (LineVisual (Some no_points) None None)))) = None"
    by (simp add: no_points_def paint_def py_len_def LineVisual_def set_data_def)
  have hv: "has_vertices two_points" by (simp add: has_vertices_def two_points_def)
  have pm: "opts_pos (LineVisual (Some two_points) (Some (ColorArray three_colors)) None) =
     Some two_points"
    by (simp add: LineVisual_fields)
  from misfit_paint
  have m: "fst (paint (LineVisual (Some two_points) (Some (ColorArray three_colors)) None)) =
     Raised ValueError \<and>
   snd (snd (paint (LineVisual (Some two_points) (Some (ColorArray three_colors)) None))) = [] \<and>
   program (fst (snd (paint
      (LineVisual (Some two_points) (Some (ColorArray three_colors)) None)))) = None"
    by (cases "paint (LineVisual (Some two_points) (Some (ColorArray three_colors)) None)") simp
  from e hv pm m show ?thesis by (elim conjE, intro conjI) assumption+
qed

subsection \<open>Invalidation\<close>

text \<open>
  C8. Assigning a transform and calling \<^verbatim>\<open>set_data\<close> (with any arguments, given or
  not) both leave the visual without a program. The next \<^verbatim>\<open>paint\<close>, unless it stops
  before making any call, creates a composite program again and leaves it in place; and
  when the visual was reachable and can be drawn, that \<^verbatim>\<open>paint\<close> returns, having
  created the program and drawn with it.
\<close>

theorem change_discards_program:
  "program (transform_setter tr v) = None \<and>
   program (set_data pos color width v) = None \<and>
   (u = transform_setter tr v \<or> u = set_data pos color width v \<longrightarrow>
      (paint u = (r, v', cs) \<and> cs \<noteq> [] \<longrightarrow>
         NewCompositeProgram vertex_shader fragment_shader \<in> set cs \<and> program v' \<noteq> None) \<and>
      (reachable v \<and> drawable u \<longrightarrow>
         (\<exists>w pre p. paint u =
            (Returned, w,
             pre @ [NewCompositeProgram vertex_shader fragment_shader,
                    GlLineWidth (opts_width u), ProgramDraw p ''LINE_STRIP'']) \<and>
            program w = Some p)))"
proof -
  have none: "program (transform_setter tr v) = None" "program (set_data pos color width v) = None"
    by (simp_all add: transform_setter_fields set_data_caches)
  have rest: "(paint u = (r, v', cs) \<and> cs \<noteq> [] \<longrightarrow>
         NewCompositeProgram vertex_shader fragment_shader \<in> set cs \<and> program v' \<noteq> None) \<and>
      (reachable v \<and> drawable u \<longrightarrow>
         (\<exists>w pre p. paint u =
            (Returned, w,
             pre @ [NewCompositeProgram vertex_shader fragment_shader,
                    GlLineWidth (opts_width u), ProgramDraw p ''LINE_STRIP'']) \<and>
            program w = Some p))"
    if u: "u = transform_setter tr v \<or> u = set_data pos color width v"
  proof -
    from u none have p: "program u = None" by auto
    have cur: "vbo_current u" if "reachable v"
    proof -
      from u that have "reachable u" by (auto intro: reachable.transform reachable.data)
      then show ?thesis by (rule reachable_current)
    qed
    show ?thesis
      using paint_unbuilt_rebuilds [OF p, of r v' cs] paint_unbuilt_drawable [OF cur p]
      by blast
  qed
  from none rest show ?thesis by blast
qed

theorem change_discards_program_witness:
  "program painted_line \<noteq> None \<and>
   program (transform_setter (UserTransform ''scale'') painted_line) = None \<and>
   program (set_data None (Some (ColorTuple [1, 0, 0, 1])) None painted_line) = None \<and>
   (\<exists>w pre p. paint (transform_setter (UserTransform ''scale'') painted_line) =
      (Returned, w,
       pre @ [NewCompositeProgram vertex_shader fragment_shader,
              GlLineWidth (Scalar 1), ProgramDraw p ''LINE_STRIP'']) \<and>
      program w = Some p)"
proof -
  let ?u = "transform_setter (UserTransform ''scale'') painted_line"
  have r: "reachable painted_line"
    unfolding painted_line_def by (rule reachable.painted) (rule reachable.init)
  have d: "drawable ?u"
    by (simp add: painted_line_def run_defs two_points_def drawable_def has_vertices_def)
  have w: "opts_width ?u = Scalar 1"
    by (simp add: painted_line_def run_defs two_points_def)
  from change_discards_program [of "UserTransform ''scale''" painted_line None
      "Some (ColorTuple [1, 0, 0, 1])" None ?u] r d w painted_line_program
  show ?thesis by simp
qed

subsection \<open>The hook contract\<close>

text \<open>
  C9. The vertex template declares three hooks, \<^verbatim>\<open>vec4 local_position(void)\<close>,
  \<^verbatim>\<open>vec4 map_local_to_nd(vec4)\<close> and \<^verbatim>\<open>void post_hook()\<close>, and no other; the
  fragment template declares \<^verbatim>\<open>vec4 frag_color()\<close> and no other. Every program
  build that returns has made a program of these two templates and has set the hooks
  \<^verbatim>\<open>local_position\<close>, \<^verbatim>\<open>map_local_to_nd\<close> and \<^verbatim>\<open>frag_color\<close>, in this order,
  and has not set \<^verbatim>\<open>post_hook\<close>.
\<close>

theorem hook_contract:
  "declared_hooks vertex_shader =
     [(''vec4'', ''local_position'', ''void''), (''vec4'', ''map_local_to_nd'', ''vec4''),
      (''void'', ''post_hook'', '''')] \<and>
   declared_hooks fragment_shader = [(''vec4'', ''frag_color'', '''')] \<and>
   (build_program v = (Returned, v', cs) \<longrightarrow>
      (\<exists>p. program v' = Some p \<and> vmain p = vertex_shader \<and> fmain p = fragment_shader \<and>
         map fst (hooks p) = [''local_position'', ''map_local_to_nd'', ''frag_color''] \<and>
         map_of (hooks p) ''post_hook'' = None))"
  apply (intro conjI impI)
    apply (rule declared_hooks_vertex)
   apply (rule declared_hooks_fragment)
  apply (erule build_program_hooks)
  done

theorem hook_contract_witness:
  "\<exists>p. program (fst (snd (build_program (LineVisual (Some two_points_3d) None None)))) = Some p \<and>
     map fst (hooks p) = [''local_position'', ''map_local_to_nd'', ''frag_color''] \<and>
     map_of (hooks p) ''post_hook'' = None"
proof -
  let ?v = "LineVisual (Some two_points_3d) None None"
  have b: "build_program ?v = (Returned, fst (snd (build_program ?v)), snd (snd (build_program ?v)))"
    using sample_build_returns by (cases "build_program ?v") simp
  have "build_program ?v = (Returned, fst (snd (build_program ?v)), snd (snd (build_program ?v)))
      \<longrightarrow> (\<exists>p. program (fst (snd (build_program ?v))) = Some p \<and> vmain p = vertex_shader \<and>
         fmain p = fragment_shader \<and>
         map fst (hooks p) = [''local_position'', ''map_local_to_nd'', ''frag_color''] \<and>
         map_of (hooks p) ''post_hook'' = None)"
    using hook_contract [of ?v "fst (snd (build_program ?v))" "snd (snd (build_program ?v))"]
    by (elim conjE)
  with b obtain p where "program (fst (snd (build_program ?v))) = Some p"
    "map fst (hooks p) = [''local_position'', ''map_local_to_nd'', ''frag_color'']"
    "map_of (hooks p) ''post_hook'' = None"
    by (elim impE exE conjE)
  then show ?thesis by (intro exI conjI)
qed

subsection \<open>A new transform keeps the vertex buffer\<close>

text \<open>
  C10. Assigning a transform leaves the cached vertex buffer and the staged data array
  as they are and discards the program only, while \<^verbatim>\<open>set_data\<close> discards the vertex
  buffer and the program. In a reachable state with a vertex buffer, the program build
  that follows the assignment returns without creating a vertex buffer: its only call
  creates the program, the buffer and the data are the ones from before, and the
  position function is staged from that buffer.
\<close>

theorem transform_keeps_vertex_buffer:
  "vbo (transform_setter tr v) = vbo v \<and>
   data (transform_setter tr v) = data v \<and>
   program (transform_setter tr v) = None \<and>
   vbo (set_data pos color width v) = None \<and>
   program (set_data pos color width v) = None \<and>
   (reachable v \<and> vbo v = Some b \<longrightarrow>
      (\<exists>v' p f. build_program (transform_setter tr v) =
           (Returned, v', [NewCompositeProgram vertex_shader fragment_shader]) \<and>
         vbo v' = Some b \<and> data v' = data v \<and> program v' = Some p \<and>
         map_of (hooks p) ''local_position'' = Some f \<and>
         (slots f = [(''input_xy_pos'', Column b ''pos''), (''input_z_pos'', Float 0)] \<or>
          slots f = [(''input_xyz_pos'', Buffer (Some b))])))"
proof -
  let ?u = "transform_setter tr v"
  have reuse: "\<exists>v' p f. build_program ?u =
           (Returned, v', [NewCompositeProgram vertex_shader fragment_shader]) \<and>
         vbo v' = Some b \<and> data v' = data v \<and> program v' = Some p \<and>
         map_of (hooks p) ''local_position'' = Some f \<and>
         (slots f = [(''input_xy_pos'', Column b ''pos''), (''input_z_pos'', Float 0)] \<or>
          slots f = [(''input_xyz_pos'', Buffer (Some b))])"
    if rv: "reachable v" and b: "vbo v = Some b"
  proof -
    from rv have "reachable ?u" by (rule reachable.transform)
    then have cur: "vbo_current ?u" by (rule reachable_current)
    have ub: "vbo ?u = Some b" using b by (simp add: transform_setter_fields)
    from vbo_current_staged [OF cur ub] obtain pos d where
      s: "opts_pos ?u = Some pos" "shape pos \<noteq> []" "color_fits pos (opts_color ?u)"
         "data ?u = Some d" "b = VertexBuffer d"
         "map_of (dtype_fields d) ''pos'' = Some (last (shape pos))"
      by blast
    from build_program_staged [OF ub s(4,6)] obtain pf cf where
      r: "get_position_function ?u = Inr pf"
         "build_program ?u =
           (Returned,
            ?u\<lparr>program := Some \<lparr>vmain = vertex_shader, fmain = fragment_shader,
                  hooks = [(''local_position'', pf),
                           (''map_local_to_nd'', BoundMap (opts_transform ?u) ''map_local_to_nd''),
                           (''frag_color'', cf)]\<rparr>\<rparr>,
            [NewCompositeProgram vertex_shader fragment_shader])"
      by blast
    from get_position_function_staged [OF s(4,6) ub] r(1)
    have pf: "slots pf = [(''input_xy_pos'', Column b ''pos''), (''input_z_pos'', Float 0)] \<or>
          slots pf = [(''input_xyz_pos'', Buffer (Some b))]"
      by (cases "last (shape pos) = 2") auto
    show ?thesis
      unfolding r(2) using pf b by (simp add: transform_setter_fields)
  qed
  show ?thesis
    using reuse by (simp add: transform_setter_fields set_data_caches)
qed

theorem transform_keeps_vertex_buffer_witness:
  "\<exists>b v' p. vbo painted_line = Some b \<and>
     vbo (transform_setter (UserTransform ''scale'') painted_line) = Some b \<and>
     build_program (transform_setter (UserTransform ''scale'') painted_line) =
       (Returned, v', [NewCompositeProgram vertex_shader fragment_shader]) \<and>
     vbo v' = Some b \<and> program v' = Some p"
proof -
  from painted_line_vbo obtain b where b: "vbo painted_line = Some b" by auto
  from transform_keeps_vertex_buffer [of "UserTransform ''scale''" painted_line None None None b]
    reachable_painted_line b
  show ?thesis by auto
qed

end
